theory Spec2Isabelle
  imports Main "HOL-Library.Word" "HOL-Library.Sublist"
begin

unbundle bit_operations_syntax

section \<open>Go values and the library calls of main.go\<close>

text \<open>
  The plugin is one Go file. Its own functions are embedded below one by one. What it
  calls from outside is handled in two ways. The small, fully determined helpers
  (\<open>strings.LastIndex\<close>, \<open>strings.Split\<close>, \<open>strings.TrimSpace\<close>, \<open>Header.Get\<close>,
  \<open>IPNet.Contains\<close>) are written out as Go documents them. The parsers, the regular
  expression engine, the file system and the outcome of \<open>rw.Write\<close> are parameters: a
  record \<open>env\<close> of functions and a record \<open>ResponseWriter\<close>, so that every theorem
  holds for whatever they return.

  A Go \<open>string\<close> is a sequence of bytes: \<open>string\<close> here. A non-nil \<open>error\<close> is its
  message. A run-time panic is a value of \<open>go_panic\<close>.
\<close>

type_synonym byte = "8 word"
type_synonym go_error = string

datatype go_panic = IndexOutOfRange nat nat | InvalidWriteHeaderCode int

text \<open>\<open>xs[i]\<close> on a slice: a panic when \<open>i\<close> is out of range.\<close>

definition index :: "'a list \<Rightarrow> nat \<Rightarrow> go_panic + 'a" where
  "index xs i = (if i < length xs then Inr (xs ! i) else Inl (IndexOutOfRange i (length xs)))"

subsection \<open>Package strings\<close>

text \<open>
  \<open>strings.LastIndex(s, sep)\<close> for a one-byte \<open>sep\<close> (the source passes \<open>":"\<close>): the
  scan runs from the last byte down; -1 when the byte does not occur.
\<close>

definition LastIndex :: "string \<Rightarrow> char \<Rightarrow> int" where
  "LastIndex s sep =
     (case dropWhile (\<lambda>x. x \<noteq> sep) (rev s) of
        [] \<Rightarrow> - 1
      | _ # front \<Rightarrow> int (length front))"

text \<open>
  \<open>strings.Split(s, sep)\<close> for a one-byte \<open>sep\<close> (the source passes \<open>","\<close>): cut at
  every occurrence, left to right; the piece after the last separator closes the slice,
  so the result is never empty.
\<close>

function Split :: "string \<Rightarrow> char \<Rightarrow> string list" where
  "Split s sep =
     (case dropWhile (\<lambda>x. x \<noteq> sep) s of
        [] \<Rightarrow> [s]
      | _ # rest \<Rightarrow> takeWhile (\<lambda>x. x \<noteq> sep) s # Split rest sep)"
  by pat_completeness auto
termination
proof (relation "measure (\<lambda>(s, sep). length s)")
  show "wf (measure (\<lambda>(s, sep). length s))" by simp
next
  fix s :: string and sep :: char and x21 :: char and x22 :: string
  assume h: "dropWhile (\<lambda>x. x \<noteq> sep) s = x21 # x22"
  have "length (dropWhile (\<lambda>x. x \<noteq> sep) s) \<le> length s"
    by (rule length_dropWhile_le)
  with h show "((x22, sep), (s, sep)) \<in> measure (\<lambda>(s, sep). length s)" by simp
qed

declare Split.simps [simp del]

text \<open>
  \<open>strings.TrimSpace\<close> removes leading and trailing white space as Unicode defines it
  (\<open>unicode.IsSpace\<close>), reading the string as UTF-8. \<open>whiteSpace\<close> lists the UTF-8
  encodings of those code points: U+0009 to U+000D, U+0020, U+0085, U+00A0, U+1680,
  U+2000 to U+200A, U+2028, U+2029, U+202F, U+205F and U+3000.
\<close>

definition whiteSpace :: "string list" where
  "whiteSpace =
     [[CHR 0x09], [CHR 0x0A], [CHR 0x0B], [CHR 0x0C], [CHR 0x0D], [CHR 0x20],
      [CHR 0xC2, CHR 0x85], [CHR 0xC2, CHR 0xA0],
      [CHR 0xE1, CHR 0x9A, CHR 0x80],
      [CHR 0xE2, CHR 0x80, CHR 0x80], [CHR 0xE2, CHR 0x80, CHR 0x81],
      [CHR 0xE2, CHR 0x80, CHR 0x82], [CHR 0xE2, CHR 0x80, CHR 0x83],
      [CHR 0xE2, CHR 0x80, CHR 0x84], [CHR 0xE2, CHR 0x80, CHR 0x85],
      [CHR 0xE2, CHR 0x80, CHR 0x86], [CHR 0xE2, CHR 0x80, CHR 0x87],
      [CHR 0xE2, CHR 0x80, CHR 0x88], [CHR 0xE2, CHR 0x80, CHR 0x89],
      [CHR 0xE2, CHR 0x80, CHR 0x8A],
      [CHR 0xE2, CHR 0x80, CHR 0xA8], [CHR 0xE2, CHR 0x80, CHR 0xA9],
      [CHR 0xE2, CHR 0x80, CHR 0xAF],
      [CHR 0xE2, CHR 0x81, CHR 0x9F],
      [CHR 0xE3, CHR 0x80, CHR 0x80]]"

text \<open>The width in bytes of the white-space character a string starts (ends) with; 0 if none.\<close>

definition leadingSpace :: "string \<Rightarrow> nat" where
  "leadingSpace s = (case find (\<lambda>e. prefix e s) whiteSpace of None \<Rightarrow> 0 | Some e \<Rightarrow> length e)"

definition trailingSpace :: "string \<Rightarrow> nat" where
  "trailingSpace s = (case find (\<lambda>e. suffix e s) whiteSpace of None \<Rightarrow> 0 | Some e \<Rightarrow> length e)"

lemma leadingSpace_le: "leadingSpace s \<le> length s"
  by (auto simp: leadingSpace_def find_Some_iff prefix_length_le split: option.splits)

lemma trailingSpace_le: "trailingSpace s \<le> length s"
  by (auto simp: trailingSpace_def find_Some_iff suffix_length_le split: option.splits)

function TrimLeft :: "string \<Rightarrow> string" where
  "TrimLeft s = (case leadingSpace s of 0 \<Rightarrow> s | Suc k \<Rightarrow> TrimLeft (drop (Suc k) s))"
  by pat_completeness auto
termination
proof (relation "measure length")
  show "wf (measure length)" by simp
next
  fix s :: string and k :: nat
  assume h: "leadingSpace s = Suc k"
  with leadingSpace_le [of s] have "Suc k \<le> length s" by simp
  then show "(drop (Suc k) s, s) \<in> measure length" by simp
qed

function TrimRight :: "string \<Rightarrow> string" where
  "TrimRight s =
     (case trailingSpace s of 0 \<Rightarrow> s | Suc k \<Rightarrow> TrimRight (take (length s - Suc k) s))"
  by pat_completeness auto
termination
proof (relation "measure length")
  show "wf (measure length)" by simp
next
  fix s :: string and k :: nat
  assume h: "trailingSpace s = Suc k"
  with trailingSpace_le [of s] have "Suc k \<le> length s" by simp
  then show "(take (length s - Suc k) s, s) \<in> measure length" by simp
qed

declare TrimLeft.simps [simp del] TrimRight.simps [simp del]

definition TrimSpace :: "string \<Rightarrow> string" where
  "TrimSpace s = TrimRight (TrimLeft s)"

subsection \<open>Package net: addresses and networks\<close>

text \<open>
  \<open>net.IP\<close> and \<open>net.IPMask\<close> are byte slices; \<open>nil\<close> is the empty list.
  \<open>IP.To4\<close>, \<open>networkNumberAndMask\<close> and \<open>IPNet.Contains\<close> follow package net.
\<close>

type_synonym IP = "byte list"
type_synonym IPMask = "byte list"

record IPNet =
  IP :: IP
  Mask :: IPMask

definition To4 :: "IP \<Rightarrow> IP" where
  "To4 ip =
     (if length ip = 4 then ip
      else if length ip = 16 \<and> list_all (\<lambda>b. b = 0) (take 10 ip) \<and> ip ! 10 = 0xff \<and> ip ! 11 = 0xff
      then drop 12 ip
      else [])"

definition networkNumberAndMask :: "IPNet \<Rightarrow> IP \<times> IPMask" where
  "networkNumberAndMask n =
     (let ip = (if To4 (IP n) = [] then IP n else To4 (IP n)) in
      if To4 (IP n) = [] \<and> length ip \<noteq> 16 then ([], [])
      else if length (Mask n) = 4 then (if length ip \<noteq> 4 then ([], []) else (ip, Mask n))
      else if length (Mask n) = 16 then (if length ip = 4 then (ip, drop 12 (Mask n)) else (ip, Mask n))
      else ([], []))"

definition Contains :: "IPNet \<Rightarrow> IP \<Rightarrow> bool" where
  "Contains n ip0 =
     (let (nn, m) = networkNumberAndMask n;
          ip = (if To4 ip0 \<noteq> [] then To4 ip0 else ip0);
          l = length ip
      in if l \<noteq> length nn then False
         else list_all (\<lambda>i. (nn ! i) AND (m ! i) = (ip ! i) AND (m ! i)) [0..<l])"

text \<open>
  What \<open>net.ParseCIDR\<close> returns on success: an address of 4 or 16 bytes with a mask of
  the same length.
\<close>

definition validIPNet :: "IPNet \<Rightarrow> bool" where
  "validIPNet n = (length (Mask n) = length (IP n) \<and> (length (IP n) = 4 \<or> length (IP n) = 16))"

subsection \<open>Package net: the address parser\<close>

text \<open>
  The theorems about \<open>checkIgnore\<close> hold for whatever the parsers return. One claim is
  about which texts parse as an address, so \<open>net.ParseIP\<close> is written out as well.
  \<open>net.ParseIP\<close> (Go 1.22 and later) is \<open>netip.ParseAddr\<close> with every zoned address
  refused, the result in its 16-byte form. The functions below follow package netip:
  \<open>parseIPv4Fields\<close>, \<open>parseIPv6\<close> with its loop over the groups, \<open>ParseAddr\<close>.
  A failed parse is \<open>None\<close>.
\<close>

definition isDecimal :: "char \<Rightarrow> bool" where
  "isDecimal c = (48 \<le> (of_char c :: nat) \<and> (of_char c :: nat) \<le> 57)"

text \<open>
  The loop of \<open>parseIPv4Fields\<close> over the text. \<open>atStart\<close> is \<open>i == 0\<close>,
  \<open>afterDot\<close> is \<open>s[i-1] == '.'\<close>, \<open>octets\<close> are the fields stored so far
  (\<open>pos\<close> is their number).
\<close>

fun parseIPv4Fields :: "string \<Rightarrow> bool \<Rightarrow> bool \<Rightarrow> nat \<Rightarrow> nat \<Rightarrow> byte list \<Rightarrow> byte list option" where
  "parseIPv4Fields [] atStart afterDot val digLen octets =
     (if length octets < 3 then None else Some (octets @ [of_nat val]))"
| "parseIPv4Fields (c # s) atStart afterDot val digLen octets =
     (if isDecimal c then
        (if digLen = 1 \<and> val = 0 then None
         else (let val' = val * 10 + ((of_char c :: nat) - 48)
               in if val' > 255 then None
                  else parseIPv4Fields s False False val' (digLen + 1) octets))
      else if c = CHR ''.'' then
        (if atStart \<or> s = [] \<or> afterDot then None
         else if length octets = 3 then None
         else parseIPv4Fields s False True 0 0 (octets @ [of_nat val]))
      else None)"

definition parseIPv4 :: "string \<Rightarrow> byte list option" where
  "parseIPv4 s = parseIPv4Fields s True False 0 0 []"

definition hexDigit :: "char \<Rightarrow> nat option" where
  "hexDigit c =
     (let n = (of_char c :: nat)
      in if 48 \<le> n \<and> n \<le> 57 then Some (n - 48)
         else if 97 \<le> n \<and> n \<le> 102 then Some (n - 97 + 10)
         else if 65 \<le> n \<and> n \<le> 70 then Some (n - 65 + 10)
         else None)"

text \<open>
  The inner loop of \<open>parseIPv6\<close>: the hexadecimal digits a group starts with. The
  result is the number of digits read and their value; a fifth digit fails.
\<close>

fun hexGroup :: "string \<Rightarrow> nat \<Rightarrow> nat \<Rightarrow> (nat \<times> nat) option" where
  "hexGroup [] off acc = Some (off, acc)"
| "hexGroup (c # s) off acc =
     (case hexDigit c of
        None \<Rightarrow> Some (off, acc)
      | Some d \<Rightarrow>
          (let acc' = acc * 16 + d
           in if off > 3 then None
              else if acc' > 65535 then None
              else hexGroup s (off + 1) acc'))"

text \<open>
  The outer loop of \<open>parseIPv6\<close>, \<open>for i < 16\<close>: \<open>ip\<close> holds the bytes stored so
  far (\<open>i\<close> is their number), \<open>ellipsis\<close> the place of \<open>::\<close> if it was seen. The
  result is the state the loop ends in, with the text left over.
\<close>

function parseIPv6_groups ::
  "string \<Rightarrow> byte list \<Rightarrow> nat option \<Rightarrow> (byte list \<times> nat option \<times> string) option" where
  "parseIPv6_groups s ip ellipsis =
     (if \<not> length ip < 16 then Some (ip, ellipsis, s)
      else case hexGroup s 0 0 of
        None \<Rightarrow> None
      | Some (off, acc) \<Rightarrow>
          if off = 0 then None
          else if off < length s \<and> s ! off = CHR ''.'' then
            (if ellipsis = None \<and> length ip \<noteq> 12 then None
             else if length ip + 4 > 16 then None
             else case parseIPv4 s of
                    None \<Rightarrow> None
                  | Some v4 \<Rightarrow> Some (ip @ v4, ellipsis, []))
          else
            (let ip' = ip @ [of_nat (acc div 256), of_nat (acc mod 256)];
                 s1 = drop off s
             in if s1 = [] then Some (ip', ellipsis, [])
                else if hd s1 \<noteq> CHR '':'' then None
                else if length s1 = 1 then None
                else if hd (tl s1) = CHR '':'' then
                  (if ellipsis \<noteq> None then None
                   else if tl (tl s1) = [] then Some (ip', Some (length ip'), [])
                   else parseIPv6_groups (tl (tl s1)) ip' (Some (length ip')))
                else parseIPv6_groups (tl s1) ip' ellipsis))"
  by pat_completeness auto
termination
  by (relation "measure (\<lambda>(s, ip, ellipsis). 16 - length ip)") auto

declare parseIPv6_groups.simps [simp del]

text \<open>
  \<open>parseIPv6\<close>: the zone is cut off at the first \<open>%\<close> and must not be empty; a
  leading \<open>::\<close> is taken; after the groups nothing may be left; too few bytes need an
  ellipsis, which is then filled with zeros, and 16 bytes must not have one. The result
  is the 16 bytes and the zone (\<open>""\<close> for none).
\<close>

definition parseIPv6 :: "string \<Rightarrow> (byte list \<times> string) option" where
  "parseIPv6 inp =
     (let hasZone = (CHR 0x25 \<in> set inp);
          s = (if hasZone then takeWhile (\<lambda>c. c \<noteq> CHR 0x25) inp else inp);
          zone = (if hasZone then tl (dropWhile (\<lambda>c. c \<noteq> CHR 0x25) inp) else [])
      in if hasZone \<and> zone = [] then None
         else
           (let lead = (length s \<ge> 2 \<and> s ! 0 = CHR '':'' \<and> s ! 1 = CHR '':'');
                s' = (if lead then drop 2 s else s);
                ellipsis = (if lead then Some 0 else None)
            in if lead \<and> s' = [] then Some (replicate 16 0, zone)
               else case parseIPv6_groups s' [] ellipsis of
                 None \<Rightarrow> None
               | Some (ip, ell, rest) \<Rightarrow>
                   if rest \<noteq> [] then None
                   else if length ip < 16 then
                     (case ell of
                        None \<Rightarrow> None
                      | Some e \<Rightarrow> Some (take e ip @ replicate (16 - length ip) 0 @ drop e ip, zone))
                   else if ell \<noteq> None then None
                   else Some (ip, zone)))"

text \<open>
  \<open>ParseAddr\<close> looks for the first \<open>.\<close>, \<open>:\<close> or \<open>%\<close> and parses the whole text
  as IPv4 or as IPv6 accordingly. An IPv4 result is its 4 bytes, with no zone.
\<close>

definition ParseAddr :: "string \<Rightarrow> (byte list \<times> string) option" where
  "ParseAddr s =
     (case dropWhile (\<lambda>c. c \<noteq> CHR ''.'' \<and> c \<noteq> CHR '':'' \<and> c \<noteq> CHR 0x25) s of
        [] \<Rightarrow> None
      | c # _ \<Rightarrow>
          if c = CHR ''.'' then (case parseIPv4 s of None \<Rightarrow> None | Some v4 \<Rightarrow> Some (v4, []))
          else if c = CHR '':'' then parseIPv6 s
          else None)"

text \<open>\<open>Addr.As16\<close>: an IPv4 address in its IPv4-mapped IPv6 form.\<close>

definition As16 :: "byte list \<Rightarrow> IP" where
  "As16 b = (if length b = 4 then [0, 0, 0, 0, 0, 0, 0, 0, 0, 0, 0xff, 0xff] @ b else b)"

definition ParseIP :: "string \<Rightarrow> IP" where
  "ParseIP s =
     (case ParseAddr s of
        None \<Rightarrow> []
      | Some (b, zone) \<Rightarrow> if zone \<noteq> [] then [] else As16 b)"

subsection \<open>The outside world\<close>

text \<open>
  \<open>os_Stat\<close> and \<open>rw.Write\<close> give the error, \<open>None\<close> for \<open>nil\<close>; \<open>os_ReadFile\<close>,
  \<open>net_ParseCIDR\<close> and \<open>regexp_Compile\<close> give the error or the value; \<open>net_ParseIP\<close>
  gives \<open>nil\<close> (the empty list) for text that is no address.
\<close>

record 're env =
  os_Stat :: "string \<Rightarrow> go_error option"
  os_ReadFile :: "string \<Rightarrow> go_error + byte list"
  net_ParseCIDR :: "string \<Rightarrow> go_error + IPNet"
  net_ParseIP :: "string \<Rightarrow> IP"
  regexp_Compile :: "string \<Rightarrow> go_error + 're"
  regexp_MatchString :: "'re \<Rightarrow> string \<Rightarrow> bool"

record ResponseWriter =
  rw_Write :: "byte list \<Rightarrow> go_error option"

text \<open>
  The request: its header map, the peer address and the text \<open>req.URL.String()\<close>
  renders.
\<close>

record Request =
  Header :: "string \<rightharpoonup> string list"
  RemoteAddr :: string
  URL_String :: string

text \<open>
  \<open>Header.Get\<close>: the first value stored under the key, \<open>""\<close> when there is none.
  The two keys the source asks for, \<open>X-Real-Ip\<close> and \<open>X-Forwarded-For\<close>, are in
  canonical form, the form under which the server stores the headers of a request.
\<close>

definition Get :: "(string \<rightharpoonup> string list) \<Rightarrow> string \<Rightarrow> string" where
  "Get h key = (case h key of None \<Rightarrow> [] | Some [] \<Rightarrow> [] | Some (v # _) \<Rightarrow> v)"

text \<open>
  An \<open>http.Handler\<close> is an interface value of the host; the plugin only stores it and
  calls it. It is known here by a name.
\<close>

datatype Handler = Handler string

text \<open>
  What a call does besides returning: log lines, file system probes, calls on the
  response writer and the call of the next handler, in the order they happen.
\<close>

datatype event =
    LogPrintf string
  | OsStat string
  | OsReadFile string
  | HeaderAdd string string
  | WriteHeader int
  | RwWrite "byte list"
  | NextServeHTTP Handler Request

section \<open>main.go\<close>

record Config =
  Enabled :: bool
  Filename :: string
  TriggerFilename :: string
  HttpResponseCode :: int
  HttpContentType :: string
  IpAllowList :: "string list"
  DenyUri :: "string list"

record Template =
  template_name :: string
  leftDelim :: string
  rightDelim :: string

record MaintenancePage =
  next_h :: Handler
  enabled :: bool
  filename :: string
  triggerFilename :: string
  httpResponseCode :: int
  HttpContentType :: string
  IpAllowList :: "string list"
  DenyUri :: "string list"
  name :: string
  template :: Template

text \<open>\<open>CreateConfig\<close>: the default configuration.\<close>

definition CreateConfig :: Config where
  "CreateConfig =
     \<lparr> Enabled = False,
       Filename = [],
       TriggerFilename = [],
       HttpResponseCode = 503,
       HttpContentType = ''text/html; charset=utf-8'',
       IpAllowList = [],
       DenyUri = [] \<rparr>"

text \<open>
  \<open>New\<close>: the only check is that \<open>Filename\<close> is not empty. \<open>ctx\<close> is not used.
  The configuration is the value \<open>config\<close> points to.
\<close>

definition New :: "'c \<Rightarrow> Handler \<Rightarrow> Config \<Rightarrow> string \<Rightarrow> go_error + MaintenancePage" where
  "New ctx nxt config nm =
     (if length (Filename config) = 0 then Inl ''filename cannot be empty''
      else Inr \<lparr> next_h = nxt,
                 enabled = Enabled config,
                 filename = Filename config,
                 triggerFilename = TriggerFilename config,
                 httpResponseCode = HttpResponseCode config,
                 HttpContentType = Config.HttpContentType config,
                 IpAllowList = Config.IpAllowList config,
                 DenyUri = Config.DenyUri config,
                 name = nm,
                 template = \<lparr> template_name = ''MaintenancePage'',
                               leftDelim = ''[['', rightDelim = '']]'' \<rparr> \<rparr>)"

text \<open>\<open>maintenanceEnabled\<close>: the trigger file is probed only when one is configured.\<close>

definition maintenanceEnabled :: "'re env \<Rightarrow> MaintenancePage \<Rightarrow> event list \<times> bool" where
  "maintenanceEnabled env a =
     (if \<not> enabled a then ([], False)
      else if enabled a \<and> length (triggerFilename a) = 0 then ([], True)
      else (case os_Stat env (triggerFilename a) of
              None \<Rightarrow> ([OsStat (triggerFilename a)], True)
            | Some err \<Rightarrow> ([OsStat (triggerFilename a)], False)))"

definition ipAddrFromRemoteAddr :: "string \<Rightarrow> string" where
  "ipAddrFromRemoteAddr s =
     (let idx = LastIndex s (CHR '':'') in
      if idx = - 1 then s else take (nat idx) s)"

definition requestGetRemoteAddress :: "Request \<Rightarrow> go_panic + string" where
  "requestGetRemoteAddress r =
     (let hdr = Header r;
          hdrRealIP = Get hdr ''X-Real-Ip'';
          hdrForwardedFor = Get hdr ''X-Forwarded-For''
      in if hdrRealIP = [] \<and> hdrForwardedFor = [] then Inr (ipAddrFromRemoteAddr (RemoteAddr r))
         else if hdrForwardedFor \<noteq> [] then
           (let parts = map TrimSpace (Split hdrForwardedFor (CHR '',''))
            in index parts 0)
         else Inr hdrRealIP)"

text \<open>
  The loop of \<open>checkIgnore\<close> over the allow-list: the log lines written and the value
  returned.
\<close>

fun checkIgnore_range :: "'re env \<Rightarrow> string \<Rightarrow> string list \<Rightarrow> event list \<times> bool" where
  "checkIgnore_range env remoteAddr [] = ([], True)"
| "checkIgnore_range env remoteAddr (allowedIP # rest) =
     (case net_ParseCIDR env allowedIP of
        Inl err \<Rightarrow>
          (let (evs, b) = checkIgnore_range env remoteAddr rest
           in (LogPrintf (''Could not parse allowedIP '' @ [CHR 0x27] @ allowedIP @ [CHR 0x27]
                            @ '': '' @ err) # evs, b))
      | Inr ipNet \<Rightarrow>
          (let ip = net_ParseIP env remoteAddr
           in if Contains ipNet ip then ([], False)
              else checkIgnore_range env remoteAddr rest))"

definition checkIgnore ::
  "'re env \<Rightarrow> MaintenancePage \<Rightarrow> Request \<Rightarrow> event list \<times> (go_panic + bool)" where
  "checkIgnore env a req =
     (case requestGetRemoteAddress req of
        Inl p \<Rightarrow> ([], Inl p)
      | Inr remoteAddr \<Rightarrow>
          if length (IpAllowList a) > 0 then
            (let (evs, b) = checkIgnore_range env remoteAddr (IpAllowList a) in (evs, Inr b))
          else ([], Inr True))"

text \<open>The loop of \<open>checkDenyUri\<close> over the patterns.\<close>

fun checkDenyUri_range :: "'re env \<Rightarrow> string \<Rightarrow> string list \<Rightarrow> event list \<times> bool" where
  "checkDenyUri_range env reqUrl [] = ([], False)"
| "checkDenyUri_range env reqUrl (pattern # rest) =
     (let line = LogPrintf (''URL: '' @ reqUrl @ '' | Pattern: '' @ pattern)
      in case regexp_Compile env pattern of
           Inl err \<Rightarrow>
             (let (evs, b) = checkDenyUri_range env reqUrl rest in (line # evs, b))
         | Inr denyPattern \<Rightarrow>
             if regexp_MatchString env denyPattern reqUrl then ([line], True)
             else (let (evs, b) = checkDenyUri_range env reqUrl rest in (line # evs, b)))"

definition checkDenyUri :: "'re env \<Rightarrow> MaintenancePage \<Rightarrow> Request \<Rightarrow> event list \<times> bool" where
  "checkDenyUri env a req =
     (let reqUrl = URL_String req;
          line = LogPrintf (''URL: '' @ reqUrl)
      in if length (DenyUri a) > 0 then
           (let (evs, b) = checkDenyUri_range env reqUrl (DenyUri a) in (line # evs, b))
         else ([line], False))"

text \<open>
  The condition of the \<open>if\<close> in \<open>ServeHTTP\<close>,
  \<open>a.maintenanceEnabled() && (a.checkIgnore(req) || a.checkDenyUri(req))\<close>,
  with Go's evaluation order: the right operand of \<open>&&\<close> and of \<open>||\<close> is evaluated
  only when the left one does not decide.
\<close>

definition showPage ::
  "'re env \<Rightarrow> MaintenancePage \<Rightarrow> Request \<Rightarrow> event list \<times> (go_panic + bool)" where
  "showPage env a req =
     (let (evs0, on) = maintenanceEnabled env a
      in if \<not> on then (evs0, Inr False)
         else (case checkIgnore env a req of
                 (evs1, Inl p) \<Rightarrow> (evs0 @ evs1, Inl p)
               | (evs1, Inr True) \<Rightarrow> (evs0 @ evs1, Inr True)
               | (evs1, Inr False) \<Rightarrow>
                   (let (evs2, denied) = checkDenyUri env a req
                    in (evs0 @ evs1 @ evs2, Inr denied))))"

text \<open>
  \<open>rw.WriteHeader(code)\<close>: every response writer of net/http checks the code first
  (\<open>checkWriteHeaderCode\<close>) and panics for a code below 100 or above 999; \<open>New\<close> takes
  any \<open>HttpResponseCode\<close>, so the panic is a path of \<open>ServeHTTP\<close>.
\<close>

definition checkWriteHeaderCode :: "int \<Rightarrow> go_panic option" where
  "checkWriteHeaderCode code =
     (if code < 100 \<or> code > 999 then Some (InvalidWriteHeaderCode code) else None)"

text \<open>
  \<open>ServeHTTP\<close> returns nothing: its result here is what it did, and the panic that
  ended it, if any. The trace holds the calls that returned: a \<open>WriteHeader\<close> that
  panics is not in it, the panic is the second component.
\<close>

definition ServeHTTP ::
  "'re env \<Rightarrow> MaintenancePage \<Rightarrow> ResponseWriter \<Rightarrow> Request
     \<Rightarrow> event list \<times> go_panic option" where
  "ServeHTTP env a rw req =
     (case showPage env a req of
        (evs, Inl p) \<Rightarrow> (evs, Some p)
      | (evs, Inr False) \<Rightarrow> (evs @ [NextServeHTTP (next_h a) req], None)
      | (evs, Inr True) \<Rightarrow>
          (case os_ReadFile env (filename a) of
             Inr bytes \<Rightarrow>
               (case checkWriteHeaderCode (httpResponseCode a) of
                  Some p \<Rightarrow>
                    (evs @ [OsReadFile (filename a),
                            HeaderAdd ''Content-Type'' (HttpContentType a)], Some p)
                | None \<Rightarrow>
                    (let written = [OsReadFile (filename a),
                                    HeaderAdd ''Content-Type'' (HttpContentType a),
                                    WriteHeader (httpResponseCode a),
                                    RwWrite bytes]
                     in case rw_Write rw bytes of
                          None \<Rightarrow> (evs @ written, None)
                        | Some err \<Rightarrow>
                            (evs @ written
                               @ [LogPrintf (''Could not serve maintenance template '' @ filename a
                                               @ '': '' @ err),
                                  NextServeHTTP (next_h a) req], None)))
           | Inl err \<Rightarrow>
               (evs @ [OsReadFile (filename a),
                       LogPrintf (''Could not read maintenance template '' @ filename a
                                    @ '': '' @ err),
                       NextServeHTTP (next_h a) req], None)))"

section \<open>Vocabulary of the claims\<close>

text \<open>
  Parts of a trace: what was written to the response, the calls of the next handler, the
  attempts to read the content file.
\<close>

definition responseWrites :: "event list \<Rightarrow> event list" where
  "responseWrites evs =
     filter (\<lambda>e. case e of HeaderAdd k v \<Rightarrow> True | WriteHeader c \<Rightarrow> True
                   | RwWrite b \<Rightarrow> True | _ \<Rightarrow> False) evs"

definition forwardCalls :: "event list \<Rightarrow> event list" where
  "forwardCalls evs = filter (\<lambda>e. case e of NextServeHTTP h r \<Rightarrow> True | _ \<Rightarrow> False) evs"

definition readAttempts :: "event list \<Rightarrow> event list" where
  "readAttempts evs = filter (\<lambda>e. case e of OsReadFile p \<Rightarrow> True | _ \<Rightarrow> False) evs"

text \<open>A trace of log lines and trigger probes only.\<close>

definition quiet :: "event list \<Rightarrow> bool" where
  "quiet evs = list_all (\<lambda>e. case e of LogPrintf m \<Rightarrow> True | OsStat p \<Rightarrow> True | _ \<Rightarrow> False) evs"

text \<open>
  An allow-list entry admits an address when it parses as a network and that network
  contains the address as \<open>net.ParseIP\<close> reads it. \<open>cidrErrors\<close> are the log lines
  for the entries that do not parse.
\<close>

definition allowedBy :: "'re env \<Rightarrow> string \<Rightarrow> string \<Rightarrow> bool" where
  "allowedBy env addr entry =
     (case net_ParseCIDR env entry of
        Inl err \<Rightarrow> False
      | Inr ipNet \<Rightarrow> Contains ipNet (net_ParseIP env addr))"

definition cidrErrors :: "'re env \<Rightarrow> string list \<Rightarrow> event list" where
  "cidrErrors env entries =
     concat (map (\<lambda>entry. case net_ParseCIDR env entry of
                    Inl err \<Rightarrow> [LogPrintf (''Could not parse allowedIP '' @ [CHR 0x27] @ entry
                                             @ [CHR 0x27] @ '': '' @ err)]
                  | Inr ipNet \<Rightarrow> []) entries)"

text \<open>
  A pattern denies a URI when it compiles and the compiled pattern matches the URI.
  \<open>patternLines\<close> are the log lines of the patterns the loop looks at.
\<close>

definition deniedBy :: "'re env \<Rightarrow> string \<Rightarrow> string \<Rightarrow> bool" where
  "deniedBy env url pattern =
     (case regexp_Compile env pattern of
        Inl err \<Rightarrow> False
      | Inr re \<Rightarrow> regexp_MatchString env re url)"

definition patternLines :: "string \<Rightarrow> string list \<Rightarrow> event list" where
  "patternLines url patterns =
     map (\<lambda>pattern. LogPrintf (''URL: '' @ url @ '' | Pattern: '' @ pattern)) patterns"

text \<open>
  The decision as the specification composes it: maintenance is active, and the caller
  is ignored or the URI is denied.
\<close>

definition decision :: "'re env \<Rightarrow> MaintenancePage \<Rightarrow> Request \<Rightarrow> bool" where
  "decision env a req =
     (snd (maintenanceEnabled env a) \<and>
      (snd (checkIgnore env a req) = Inr True \<or> snd (checkDenyUri env a req)))"

section \<open>A concrete world for the examples\<close>

text \<open>
  One trigger file and one content file exist; the parsers know the network
  \<open>10.0.0.0/8\<close> and two addresses; the only pattern that compiles is \<open>^/api/\<close>.
  The examples of the specification run in this world.
\<close>

definition example_env :: "string env" where
  "example_env =
     \<lparr> os_Stat = (\<lambda>p. if p = ''/run/maintenance.on'' then None
                       else Some (''stat '' @ p @ '': no such file or directory'')),
       os_ReadFile = (\<lambda>p. if p = ''/srv/maintenance.html'' then Inr [0x3C, 0x68, 0x31, 0x3E]
                           else Inl (''open '' @ p @ '': no such file or directory'')),
       net_ParseCIDR = (\<lambda>s. if s = ''10.0.0.0/8''
                             then Inr \<lparr> IP = [10, 0, 0, 0], Mask = [255, 0, 0, 0] \<rparr>
                             else Inl (''invalid CIDR address: '' @ s)),
       net_ParseIP = (\<lambda>s. if s = ''10.0.0.5''
                             then [0, 0, 0, 0, 0, 0, 0, 0, 0, 0, 255, 255, 10, 0, 0, 5]
                           else if s = ''203.0.113.9''
                             then [0, 0, 0, 0, 0, 0, 0, 0, 0, 0, 255, 255, 203, 0, 113, 9]
                           else []),
       regexp_Compile = (\<lambda>p. if p = ''^/api/'' then Inr p
                              else Inl (''error parsing regexp: '' @ p)),
       regexp_MatchString = (\<lambda>re s. re = ''^/api/'' \<and> prefix ''/api/'' s) \<rparr>"

definition example_page :: "MaintenancePage" where
  "example_page =
     \<lparr> next_h = Handler ''backend'',
       enabled = True,
       filename = ''/srv/maintenance.html'',
       triggerFilename = [],
       httpResponseCode = 503,
       HttpContentType = ''text/html; charset=utf-8'',
       IpAllowList = [''10.0.0.0/8''],
       DenyUri = [''^/api/''],
       name = ''maintenance'',
       template = \<lparr> template_name = ''MaintenancePage'',
                     leftDelim = ''[['', rightDelim = '']]'' \<rparr> \<rparr>"

definition example_request :: "string \<Rightarrow> string \<Rightarrow> Request" where
  "example_request peer url = \<lparr> Header = Map.empty, RemoteAddr = peer, URL_String = url \<rparr>"

definition rw_ok :: ResponseWriter where
  "rw_ok = \<lparr> rw_Write = (\<lambda>b. None) \<rparr>"

definition rw_broken :: ResponseWriter where
  "rw_broken = \<lparr> rw_Write = (\<lambda>b. Some ''write: broken pipe'') \<rparr>"

definition req_peer :: Request where
  "req_peer = \<lparr> Header = Map.empty, RemoteAddr = ''10.0.0.1:5000'', URL_String = ''/'' \<rparr>"

definition req_forwarded :: Request where
  "req_forwarded =
     \<lparr> Header = [''X-Real-Ip'' \<mapsto> [''9.9.9.9''], ''X-Forwarded-For'' \<mapsto> [''1.2.3.4, 5.6.7.8'']],
       RemoteAddr = ''10.0.0.1:5000'', URL_String = ''/'' \<rparr>"

definition req_real_ip :: Request where
  "req_real_ip =
     \<lparr> Header = [''X-Real-Ip'' \<mapsto> ['' 9.9.9.9'']],
       RemoteAddr = ''10.0.0.1:5000'', URL_String = ''/'' \<rparr>"

definition example_config :: Config where
  "example_config =
     \<lparr> Enabled = True,
       Filename = ''/srv/maintenance.html'',
       TriggerFilename = [],
       HttpResponseCode = 503,
       HttpContentType = ''text/html; charset=utf-8'',
       IpAllowList = [''not-a-range'', ''10.0.0.0/8''],
       DenyUri = [''(unclosed'', ''^/api/''] \<rparr>"

definition broken_config :: Config where
  "broken_config =
     \<lparr> Enabled = True,
       Filename = ''/srv/maintenance.html'',
       TriggerFilename = [],
       HttpResponseCode = 503,
       HttpContentType = ''text/html; charset=utf-8'',
       IpAllowList = [''not-a-range'', ''10.0.0.0/33''],
       DenyUri = [''(unclosed'', ''[z-a]''] \<rparr>"

section \<open>Facts about the library helpers\<close>

lemma LastIndex_absent: "sep \<notin> set s \<Longrightarrow> LastIndex s sep = - 1"
proof -
  assume "sep \<notin> set s"
  then have "dropWhile (\<lambda>x. x \<noteq> sep) (rev s) = []" by auto
  then show ?thesis unfolding LastIndex_def by (simp only: list.case)
qed

lemma LastIndex_last: "sep \<notin> set q \<Longrightarrow> LastIndex (p @ sep # q) sep = int (length p)"
proof -
  assume h: "sep \<notin> set q"
  have "dropWhile (\<lambda>x. x \<noteq> sep) (rev (p @ sep # q)) = dropWhile (\<lambda>x. x \<noteq> sep) (rev q @ sep # rev p)"
    by simp
  also have "\<dots> = sep # rev p"
    using h by (subst dropWhile_append2) auto
  finally show ?thesis by (simp add: LastIndex_def)
qed

lemma ipAddr_no_colon: "CHR '':'' \<notin> set s \<Longrightarrow> ipAddrFromRemoteAddr s = s"
  by (simp add: ipAddrFromRemoteAddr_def LastIndex_absent)

lemma ipAddr_colon: "CHR '':'' \<notin> set q \<Longrightarrow> ipAddrFromRemoteAddr (p @ CHR '':'' # q) = p"
  by (simp add: ipAddrFromRemoteAddr_def LastIndex_last Let_def)

lemma Split_hd: "\<exists>ps. Split s sep = takeWhile (\<lambda>x. x \<noteq> sep) s # ps"
proof (cases "dropWhile (\<lambda>x. x \<noteq> sep) s")
  case Nil
  then have "takeWhile (\<lambda>x. x \<noteq> sep) s = s"
    by (metis append_Nil2 takeWhile_dropWhile_id)
  then have tw: "takeWhile (\<lambda>x. x \<noteq> sep) s = s" .
  have "Split s sep = [s]" by (subst Split.simps) (simp only: Nil list.case)
  then have "Split s sep = takeWhile (\<lambda>x. x \<noteq> sep) s # []" unfolding tw .
  then show ?thesis by blast
next
  case (Cons a rest)
  have "Split s sep = takeWhile (\<lambda>x. x \<noteq> sep) s # Split rest sep"
    by (subst Split.simps) (simp only: Cons list.case)
  then show ?thesis by blast
qed

lemma index_map_Split:
  "index (map f (Split s sep)) 0 = Inr (f (takeWhile (\<lambda>x. x \<noteq> sep) s))"
proof -
  obtain ps where "Split s sep = takeWhile (\<lambda>x. x \<noteq> sep) s # ps"
    using Split_hd by blast
  then show ?thesis by (simp add: index_def)
qed

lemma whiteSpace_nonempty: "e \<in> set whiteSpace \<Longrightarrow> e \<noteq> []"
  by (auto simp: whiteSpace_def)

lemma leadingSpace_0_iff: "leadingSpace s = 0 \<longleftrightarrow> (\<forall>e \<in> set whiteSpace. \<not> prefix e s)"
proof
  assume "leadingSpace s = 0"
  then have "find (\<lambda>e. prefix e s) whiteSpace = None"
    unfolding leadingSpace_def
    by (auto split: option.splits simp: find_Some_iff dest!: nth_mem whiteSpace_nonempty)
  then show "\<forall>e \<in> set whiteSpace. \<not> prefix e s" by (simp add: find_None_iff)
next
  assume "\<forall>e \<in> set whiteSpace. \<not> prefix e s"
  then have "find (\<lambda>e. prefix e s) whiteSpace = None" by (simp add: find_None_iff)
  then show "leadingSpace s = 0" by (simp add: leadingSpace_def)
qed


lemma trailingSpace_0_iff: "trailingSpace s = 0 \<longleftrightarrow> (\<forall>e \<in> set whiteSpace. \<not> suffix e s)"
proof
  assume "trailingSpace s = 0"
  then have "find (\<lambda>e. suffix e s) whiteSpace = None"
    unfolding trailingSpace_def
    by (auto split: option.splits simp: find_Some_iff dest!: nth_mem whiteSpace_nonempty)
  then show "\<forall>e \<in> set whiteSpace. \<not> suffix e s" by (simp add: find_None_iff)
next
  assume "\<forall>e \<in> set whiteSpace. \<not> suffix e s"
  then have "find (\<lambda>e. suffix e s) whiteSpace = None" by (simp add: find_None_iff)
  then show "trailingSpace s = 0" by (simp add: trailingSpace_def)
qed

lemma leadingSpace_Suc: "leadingSpace s = Suc k \<Longrightarrow> \<exists>e \<in> set whiteSpace. s = e @ drop (Suc k) s"
  by (auto simp: leadingSpace_def find_Some_iff prefix_def split: option.splits)

lemma trailingSpace_Suc: "trailingSpace s = Suc k \<Longrightarrow> \<exists>e \<in> set whiteSpace. s = take (length s - Suc k) s @ e"
  by (auto simp: trailingSpace_def find_Some_iff suffix_def split: option.splits)

lemma TrimLeft_decomp: "\<exists>ws. set ws \<subseteq> set whiteSpace \<and> s = concat ws @ TrimLeft s"
proof (induction s rule: TrimLeft.induct)
  case (1 s)
  show ?case
  proof (cases "leadingSpace s")
    case 0
    then have "TrimLeft s = s" by (subst TrimLeft.simps) simp
    then have "set [] \<subseteq> set whiteSpace \<and> s = concat [] @ TrimLeft s" by simp
    then show ?thesis by blast
  next
    case (Suc k)
    then have t: "TrimLeft s = TrimLeft (drop (Suc k) s)" by (subst TrimLeft.simps) simp
    from Suc obtain e where e: "e \<in> set whiteSpace" "s = e @ drop (Suc k) s"
      using leadingSpace_Suc by blast
    from 1 [OF Suc] obtain ws where ws: "set ws \<subseteq> set whiteSpace"
      "drop (Suc k) s = concat ws @ TrimLeft (drop (Suc k) s)" by blast
    have "set (e # ws) \<subseteq> set whiteSpace \<and> s = concat (e # ws) @ TrimLeft s"
      using e ws t by (metis append.assoc concat.simps(2) insert_subset list.simps(15))
    then show ?thesis by blast
  qed
qed

lemma TrimLeft_clean: "leadingSpace (TrimLeft s) = 0"
proof (induction s rule: TrimLeft.induct)
  case (1 s)
  show ?case
  proof (cases "leadingSpace s")
    case 0
    then have "TrimLeft s = s" by (subst TrimLeft.simps) simp
    with 0 show ?thesis by simp
  next
    case (Suc k)
    then have t: "TrimLeft s = TrimLeft (drop (Suc k) s)" by (subst TrimLeft.simps) simp
    with 1 [OF Suc] show ?thesis by simp
  qed
qed

lemma TrimRight_decomp: "\<exists>ws. set ws \<subseteq> set whiteSpace \<and> s = TrimRight s @ concat ws"
proof (induction s rule: TrimRight.induct)
  case (1 s)
  show ?case
  proof (cases "trailingSpace s")
    case 0
    then have "TrimRight s = s" by (subst TrimRight.simps) simp
    then have "set [] \<subseteq> set whiteSpace \<and> s = TrimRight s @ concat []" by simp
    then show ?thesis by blast
  next
    case (Suc k)
    let ?t = "take (length s - Suc k) s"
    from Suc have t: "TrimRight s = TrimRight ?t" by (subst TrimRight.simps) simp
    from Suc obtain e where e: "e \<in> set whiteSpace" "s = ?t @ e"
      using trailingSpace_Suc by blast
    from 1 [OF Suc] obtain ws where ws: "set ws \<subseteq> set whiteSpace"
      "?t = TrimRight ?t @ concat ws" by blast
    have "concat (ws @ [e]) = concat ws @ e" by simp
    then have "s = TrimRight s @ concat (ws @ [e])"
      using e(2) ws(2) t by (metis append.assoc)
    moreover have "set (ws @ [e]) \<subseteq> set whiteSpace" using e(1) ws(1) by simp
    ultimately show ?thesis by blast
  qed
qed

lemma TrimRight_clean: "trailingSpace (TrimRight s) = 0"
proof (induction s rule: TrimRight.induct)
  case (1 s)
  show ?case
  proof (cases "trailingSpace s")
    case 0
    then have "TrimRight s = s" by (subst TrimRight.simps) simp
    with 0 show ?thesis by simp
  next
    case (Suc k)
    then have t: "TrimRight s = TrimRight (take (length s - Suc k) s)" by (subst TrimRight.simps) simp
    with 1 [OF Suc] show ?thesis by simp
  qed
qed

lemma TrimRight_prefix: "prefix (TrimRight s) s"
  using TrimRight_decomp [of s] by (metis prefixI)

lemma TrimRight_keeps_clean: "leadingSpace s = 0 \<Longrightarrow> leadingSpace (TrimRight s) = 0"
  unfolding leadingSpace_0_iff using TrimRight_prefix [of s] by (meson prefix_order.trans)

lemma TrimSpace_spec:
  "leadingSpace (TrimSpace s) = 0 \<and> trailingSpace (TrimSpace s) = 0 \<and>
   (\<exists>ls rs. set ls \<subseteq> set whiteSpace \<and> set rs \<subseteq> set whiteSpace \<and>
      s = concat ls @ TrimSpace s @ concat rs)"
proof -
  obtain ls where ls: "set ls \<subseteq> set whiteSpace" "s = concat ls @ TrimLeft s"
    using TrimLeft_decomp by blast
  obtain rs where rs: "set rs \<subseteq> set whiteSpace" "TrimLeft s = TrimRight (TrimLeft s) @ concat rs"
    using TrimRight_decomp by blast
  have "s = concat ls @ TrimSpace s @ concat rs"
    using ls(2) rs(2) by (simp add: TrimSpace_def)
  with ls(1) rs(1) show ?thesis
    by (auto simp: TrimSpace_def TrimRight_clean TrimRight_keeps_clean TrimLeft_clean)
qed

lemma last_split_unique:
  fixes p :: string
  assumes "p @ c # q = p' @ c # q'" and "c \<notin> set q" and "c \<notin> set q'"
  shows "p = p'"
proof -
  have "int (length p) = LastIndex (p @ c # q) c" using assms(2) by (simp add: LastIndex_last)
  also have "\<dots> = int (length p')" unfolding assms(1) using assms(3) by (simp add: LastIndex_last)
  finally have "length p = length p'" by simp
  with assms(1) show ?thesis by simp
qed

lemma TrimSpace_example: "TrimSpace ''1.2.3.4'' = ''1.2.3.4''"
  by code_simp

lemma requestGetRemoteAddress_total: "\<exists>addr. requestGetRemoteAddress r = Inr addr"
  by (simp add: requestGetRemoteAddress_def Let_def index_map_Split)

text \<open>No text that starts with a bracket parses as an address.\<close>

lemma parseIPv4_bracket: "parseIPv4 (CHR ''['' # t) = None"
  by (simp add: parseIPv4_def isDecimal_def)

lemma parseIPv6_groups_bracket: "parseIPv6_groups (CHR ''['' # t) [] ellipsis = None"
  by (subst parseIPv6_groups.simps) (simp add: hexDigit_def)

lemma parseIPv6_bracket: "parseIPv6 (CHR ''['' # t) = None"
  by (simp add: parseIPv6_def Let_def parseIPv6_groups_bracket)

lemma ParseAddr_bracket: "ParseAddr (CHR ''['' # t) = None"
  by (simp add: ParseAddr_def parseIPv4_bracket parseIPv6_bracket split: list.splits)

lemma ParseIP_bracket: "ParseIP (CHR ''['' # t) = []"
  by (simp add: ParseIP_def ParseAddr_bracket)

subsection \<open>The two loops\<close>

lemma checkIgnore_range_none:
  "\<forall>x \<in> set xs. \<not> allowedBy env addr x \<Longrightarrow>
   checkIgnore_range env addr xs = (cidrErrors env xs, True)"
  by (induction xs) (auto simp: allowedBy_def cidrErrors_def split: sum.splits)

lemma checkIgnore_range_first:
  "\<forall>x \<in> set pre. \<not> allowedBy env addr x \<Longrightarrow> allowedBy env addr e \<Longrightarrow>
   checkIgnore_range env addr (pre @ e # post) = (cidrErrors env pre, False)"
  by (induction pre) (auto simp: allowedBy_def cidrErrors_def split: sum.splits)

lemma checkIgnore_range_value:
  "snd (checkIgnore_range env addr xs) = (\<not> (\<exists>e \<in> set xs. allowedBy env addr e))"
  by (induction xs) (auto simp: allowedBy_def split: sum.splits prod.splits)

lemma checkIgnore_range_skip:
  "net_ParseCIDR env e = Inl err \<Longrightarrow>
   snd (checkIgnore_range env addr (pre @ e # post)) = snd (checkIgnore_range env addr (pre @ post))"
  by (simp add: checkIgnore_range_value allowedBy_def)

lemma To4_nil: "To4 [] = []"
  by (simp add: To4_def)

lemma To4_cases: "To4 ip = [] \<or> length (To4 ip) = 4"
  by (simp add: To4_def)

lemma To4_four: "length ip = 4 \<Longrightarrow> To4 ip = ip"
  by (simp add: To4_def)

lemma validIPNet_number:
  assumes "validIPNet n"
  shows "fst (networkNumberAndMask n) \<noteq> []"
proof -
  from assms have m: "length (Mask n) = length (IP n)"
    and l: "length (IP n) = 4 \<or> length (IP n) = 16"
    by (simp_all add: validIPNet_def)
  from l show ?thesis
  proof
    assume l4: "length (IP n) = 4"
    then have "To4 (IP n) = IP n" by (rule To4_four)
    moreover from l4 have "IP n \<noteq> []" by auto
    ultimately show ?thesis using l4 m by (simp add: networkNumberAndMask_def)
  next
    assume l16: "length (IP n) = 16"
    then have ne: "IP n \<noteq> []" by auto
    from To4_cases [of "IP n"] show ?thesis
    proof
      assume "To4 (IP n) = []"
      then show ?thesis using l16 m ne by (simp add: networkNumberAndMask_def)
    next
      assume t: "length (To4 (IP n)) = 4"
      then have "To4 (IP n) \<noteq> []" by auto
      then show ?thesis using l16 m t by (simp add: networkNumberAndMask_def)
    qed
  qed
qed

lemma Contains_nil: "validIPNet n \<Longrightarrow> \<not> Contains n []"
  using validIPNet_number [of n]
  by (auto simp: Contains_def To4_nil split: prod.splits)

lemma not_allowedBy_nil:
  "net_ParseIP env addr = [] \<Longrightarrow> \<forall>n. net_ParseCIDR env e = Inr n \<longrightarrow> validIPNet n \<Longrightarrow>
   \<not> allowedBy env addr e"
  by (auto simp: allowedBy_def Contains_nil split: sum.splits)

lemma checkDenyUri_range_none:
  "\<forall>x \<in> set ps. \<not> deniedBy env url x \<Longrightarrow>
   checkDenyUri_range env url ps = (patternLines url ps, False)"
  by (induction ps) (auto simp: deniedBy_def patternLines_def Let_def split: sum.splits)

lemma checkDenyUri_range_first:
  "\<forall>x \<in> set pre. \<not> deniedBy env url x \<Longrightarrow> deniedBy env url p \<Longrightarrow>
   checkDenyUri_range env url (pre @ p # post) = (patternLines url (pre @ [p]), True)"
  by (induction pre) (auto simp: deniedBy_def patternLines_def Let_def split: sum.splits)

lemma checkDenyUri_range_value:
  "snd (checkDenyUri_range env url ps) = (\<exists>p \<in> set ps. deniedBy env url p)"
  by (induction ps) (auto simp: deniedBy_def Let_def split: sum.splits prod.splits)

lemma checkDenyUri_range_skip:
  "regexp_Compile env p = Inl err \<Longrightarrow>
   snd (checkDenyUri_range env url (pre @ p # post)) = snd (checkDenyUri_range env url (pre @ post))"
  by (simp add: checkDenyUri_range_value deniedBy_def)

lemma checkIgnore_range_quiet: "quiet (fst (checkIgnore_range env addr xs))"
  by (induction xs) (auto simp: quiet_def split: sum.splits prod.splits)

lemma checkDenyUri_range_quiet: "quiet (fst (checkDenyUri_range env url ps))"
  by (induction ps) (auto simp: quiet_def Let_def split: sum.splits prod.splits)

lemma checkIgnore_unparsable:
  assumes "requestGetRemoteAddress req = Inr addr" and "net_ParseIP env addr = []"
    and "\<forall>entry \<in> set (IpAllowList a). \<forall>n. net_ParseCIDR env entry = Inr n \<longrightarrow> validIPNet n"
  shows "snd (checkIgnore env a req) = Inr True"
proof -
  have "\<forall>x \<in> set (IpAllowList a). \<not> allowedBy env addr x"
    using assms(2,3) not_allowedBy_nil [of env addr] by blast
  then have "checkIgnore_range env addr (IpAllowList a) = (cidrErrors env (IpAllowList a), True)"
    by (rule checkIgnore_range_none)
  then show ?thesis using assms(1) by (simp add: checkIgnore_def)
qed

subsection \<open>Traces of \<open>ServeHTTP\<close>\<close>

lemma quiet_append: "quiet (xs @ ys) \<longleftrightarrow> quiet xs \<and> quiet ys"
  by (simp add: quiet_def)

lemma quiet_parts:
  "quiet evs \<Longrightarrow> responseWrites evs = [] \<and> forwardCalls evs = [] \<and> readAttempts evs = []"
  by (induction evs)
     (auto simp: quiet_def responseWrites_def forwardCalls_def readAttempts_def split: event.splits)

lemma parts_append:
  "responseWrites (xs @ ys) = responseWrites xs @ responseWrites ys"
  "forwardCalls (xs @ ys) = forwardCalls xs @ forwardCalls ys"
  "readAttempts (xs @ ys) = readAttempts xs @ readAttempts ys"
  by (simp_all add: responseWrites_def forwardCalls_def readAttempts_def)

lemma maintenanceEnabled_quiet: "quiet (fst (maintenanceEnabled env a))"
  by (simp add: maintenanceEnabled_def quiet_def split: option.splits)

lemma checkIgnore_result:
  "\<exists>evs b. checkIgnore env a req = (evs, Inr b) \<and> quiet evs"
proof -
  obtain addr where addr: "requestGetRemoteAddress req = Inr addr"
    using requestGetRemoteAddress_total by blast
  show ?thesis
  proof (cases "IpAllowList a = []")
    case True
    then have "checkIgnore env a req = ([], Inr True)" using addr by (simp add: checkIgnore_def)
    moreover have "quiet []" by (simp add: quiet_def)
    ultimately show ?thesis by blast
  next
    case False
    then have "checkIgnore env a req
        = (fst (checkIgnore_range env addr (IpAllowList a)),
           Inr (snd (checkIgnore_range env addr (IpAllowList a))))"
      using addr by (simp add: checkIgnore_def split_beta)
    then show ?thesis using checkIgnore_range_quiet by blast
  qed
qed

lemma checkDenyUri_quiet: "quiet (fst (checkDenyUri env a req))"
proof (cases "DenyUri a = []")
  case True
  then show ?thesis by (simp add: checkDenyUri_def quiet_def)
next
  case False
  then have "fst (checkDenyUri env a req)
      = LogPrintf (''URL: '' @ URL_String req) # fst (checkDenyUri_range env (URL_String req) (DenyUri a))"
    by (simp add: checkDenyUri_def split_beta Let_def)
  then show ?thesis
    using checkDenyUri_range_quiet [of env "URL_String req" "DenyUri a"] by (simp add: quiet_def)
qed

lemma showPage_result:
  "\<exists>evs. showPage env a req = (evs, Inr (decision env a req)) \<and> quiet evs"
proof -
  obtain evs0 on where m: "maintenanceEnabled env a = (evs0, on)" by (cases "maintenanceEnabled env a")
  then have q0: "quiet evs0" using maintenanceEnabled_quiet [of env a] by simp
  obtain evs1 ig where i: "checkIgnore env a req = (evs1, Inr ig)" and q1: "quiet evs1"
    using checkIgnore_result by blast
  obtain evs2 dn where d: "checkDenyUri env a req = (evs2, dn)" by (cases "checkDenyUri env a req")
  then have q2: "quiet evs2" using checkDenyUri_quiet [of env a req] by simp
  show ?thesis
  proof (cases on)
    case False
    then have "showPage env a req = (evs0, Inr (decision env a req))"
      using m by (simp add: showPage_def decision_def)
    with q0 show ?thesis by blast
  next
    case True
    show ?thesis
    proof (cases ig)
      case True
      then have "showPage env a req = (evs0 @ evs1, Inr (decision env a req))"
        using m i \<open>on\<close> by (simp add: showPage_def decision_def)
      moreover have "quiet (evs0 @ evs1)" using q0 q1 by (simp add: quiet_append)
      ultimately show ?thesis by blast
    next
      case False
      then have "showPage env a req = (evs0 @ evs1 @ evs2, Inr (decision env a req))"
        using m i d \<open>on\<close> by (simp add: showPage_def decision_def)
      moreover have "quiet (evs0 @ evs1 @ evs2)" using q0 q1 q2 by (simp add: quiet_append)
      ultimately show ?thesis by blast
    qed
  qed
qed

text \<open>The five ways through \<open>ServeHTTP\<close>.\<close>

lemma ServeHTTP_forward:
  assumes "\<not> decision env a req"
  shows "\<exists>evs. quiet evs \<and> ServeHTTP env a rw req = (evs @ [NextServeHTTP (next_h a) req], None)"
proof -
  obtain evs where "showPage env a req = (evs, Inr (decision env a req))" "quiet evs"
    using showPage_result by blast
  then show ?thesis using assms by (auto simp: ServeHTTP_def)
qed

lemma ServeHTTP_read_fails:
  assumes "decision env a req" and "os_ReadFile env (filename a) = Inl err"
  shows "\<exists>evs. quiet evs \<and> ServeHTTP env a rw req
           = (evs @ [OsReadFile (filename a),
                     LogPrintf (''Could not read maintenance template '' @ filename a @ '': '' @ err),
                     NextServeHTTP (next_h a) req], None)"
proof -
  obtain evs where "showPage env a req = (evs, Inr (decision env a req))" "quiet evs"
    using showPage_result by blast
  then show ?thesis using assms by (auto simp: ServeHTTP_def)
qed

lemma ServeHTTP_bad_code:
  assumes "decision env a req" and "os_ReadFile env (filename a) = Inr bytes"
    and "checkWriteHeaderCode (httpResponseCode a) = Some p"
  shows "\<exists>evs. quiet evs \<and> ServeHTTP env a rw req
           = (evs @ [OsReadFile (filename a), HeaderAdd ''Content-Type'' (HttpContentType a)],
              Some p)"
proof -
  obtain evs where "showPage env a req = (evs, Inr (decision env a req))" "quiet evs"
    using showPage_result by blast
  then show ?thesis using assms by (auto simp: ServeHTTP_def)
qed

lemma ServeHTTP_served:
  assumes "decision env a req" and "os_ReadFile env (filename a) = Inr bytes"
    and "checkWriteHeaderCode (httpResponseCode a) = None"
    and "rw_Write rw bytes = None"
  shows "\<exists>evs. quiet evs \<and> ServeHTTP env a rw req
           = (evs @ [OsReadFile (filename a), HeaderAdd ''Content-Type'' (HttpContentType a),
                     WriteHeader (httpResponseCode a), RwWrite bytes], None)"
proof -
  obtain evs where "showPage env a req = (evs, Inr (decision env a req))" "quiet evs"
    using showPage_result by blast
  then show ?thesis using assms by (auto simp: ServeHTTP_def)
qed

lemma ServeHTTP_write_fails:
  assumes "decision env a req" and "os_ReadFile env (filename a) = Inr bytes"
    and "checkWriteHeaderCode (httpResponseCode a) = None"
    and "rw_Write rw bytes = Some err"
  shows "\<exists>evs. quiet evs \<and> ServeHTTP env a rw req
           = (evs @ [OsReadFile (filename a), HeaderAdd ''Content-Type'' (HttpContentType a),
                     WriteHeader (httpResponseCode a), RwWrite bytes,
                     LogPrintf (''Could not serve maintenance template '' @ filename a @ '': '' @ err),
                     NextServeHTTP (next_h a) req], None)"
proof -
  obtain evs where "showPage env a req = (evs, Inr (decision env a req))" "quiet evs"
    using showPage_result by blast
  then show ?thesis using assms by (auto simp: ServeHTTP_def)
qed

text \<open>What each way leaves in the trace.\<close>

lemma forward_facts:
  assumes "\<not> decision env a req"
  shows "responseWrites (fst (ServeHTTP env a rw req)) = []"
    and "forwardCalls (fst (ServeHTTP env a rw req)) = [NextServeHTTP (next_h a) req]"
    and "readAttempts (fst (ServeHTTP env a rw req)) = []"
    and "last (fst (ServeHTTP env a rw req)) = NextServeHTTP (next_h a) req"
    and "snd (ServeHTTP env a rw req) = None"
proof -
  obtain evs where q: "quiet evs"
    and s: "ServeHTTP env a rw req = (evs @ [NextServeHTTP (next_h a) req], None)"
    using ServeHTTP_forward [OF assms] by blast
  note p = quiet_parts [OF q]
  show "responseWrites (fst (ServeHTTP env a rw req)) = []"
    using p by (simp add: s parts_append) (simp add: responseWrites_def)
  show "forwardCalls (fst (ServeHTTP env a rw req)) = [NextServeHTTP (next_h a) req]"
    using p by (simp add: s parts_append) (simp add: forwardCalls_def)
  show "readAttempts (fst (ServeHTTP env a rw req)) = []"
    using p by (simp add: s parts_append) (simp add: readAttempts_def)
  show "last (fst (ServeHTTP env a rw req)) = NextServeHTTP (next_h a) req" by (simp add: s)
  show "snd (ServeHTTP env a rw req) = None" by (simp add: s)
qed

lemma read_fails_facts:
  assumes "decision env a req" and "os_ReadFile env (filename a) = Inl err"
  shows "responseWrites (fst (ServeHTTP env a rw req)) = []"
    and "forwardCalls (fst (ServeHTTP env a rw req)) = [NextServeHTTP (next_h a) req]"
    and "readAttempts (fst (ServeHTTP env a rw req)) = [OsReadFile (filename a)]"
    and "last (fst (ServeHTTP env a rw req)) = NextServeHTTP (next_h a) req"
    and "snd (ServeHTTP env a rw req) = None"
proof -
  obtain evs where q: "quiet evs"
    and s: "ServeHTTP env a rw req
           = (evs @ [OsReadFile (filename a),
                     LogPrintf (''Could not read maintenance template '' @ filename a @ '': '' @ err),
                     NextServeHTTP (next_h a) req], None)"
    using ServeHTTP_read_fails [OF assms] by blast
  note p = quiet_parts [OF q]
  show "responseWrites (fst (ServeHTTP env a rw req)) = []"
    using p by (simp add: s parts_append) (simp add: responseWrites_def)
  show "forwardCalls (fst (ServeHTTP env a rw req)) = [NextServeHTTP (next_h a) req]"
    using p by (simp add: s parts_append) (simp add: forwardCalls_def)
  show "readAttempts (fst (ServeHTTP env a rw req)) = [OsReadFile (filename a)]"
    using p by (simp add: s parts_append) (simp add: readAttempts_def)
  show "last (fst (ServeHTTP env a rw req)) = NextServeHTTP (next_h a) req" by (simp add: s)
  show "snd (ServeHTTP env a rw req) = None" by (simp add: s)
qed

lemma bad_code_facts:
  assumes "decision env a req" and "os_ReadFile env (filename a) = Inr bytes"
    and "checkWriteHeaderCode (httpResponseCode a) = Some p"
  shows "responseWrites (fst (ServeHTTP env a rw req))
           = [HeaderAdd ''Content-Type'' (HttpContentType a)]"
    and "forwardCalls (fst (ServeHTTP env a rw req)) = []"
    and "readAttempts (fst (ServeHTTP env a rw req)) = [OsReadFile (filename a)]"
    and "last (fst (ServeHTTP env a rw req)) = HeaderAdd ''Content-Type'' (HttpContentType a)"
    and "snd (ServeHTTP env a rw req) = Some p"
proof -
  obtain evs where q: "quiet evs"
    and s: "ServeHTTP env a rw req
           = (evs @ [OsReadFile (filename a), HeaderAdd ''Content-Type'' (HttpContentType a)],
              Some p)"
    using ServeHTTP_bad_code [OF assms] by blast
  note pq = quiet_parts [OF q]
  show "responseWrites (fst (ServeHTTP env a rw req))
           = [HeaderAdd ''Content-Type'' (HttpContentType a)]"
    using pq by (simp add: s parts_append) (simp add: responseWrites_def)
  show "forwardCalls (fst (ServeHTTP env a rw req)) = []"
    using pq by (simp add: s parts_append) (simp add: forwardCalls_def)
  show "readAttempts (fst (ServeHTTP env a rw req)) = [OsReadFile (filename a)]"
    using pq by (simp add: s parts_append) (simp add: readAttempts_def)
  show "last (fst (ServeHTTP env a rw req)) = HeaderAdd ''Content-Type'' (HttpContentType a)"
    by (simp add: s)
  show "snd (ServeHTTP env a rw req) = Some p" by (simp add: s)
qed

lemma served_facts:
  assumes "decision env a req" and "os_ReadFile env (filename a) = Inr bytes"
    and "checkWriteHeaderCode (httpResponseCode a) = None"
    and "rw_Write rw bytes = None"
  shows "responseWrites (fst (ServeHTTP env a rw req))
           = [HeaderAdd ''Content-Type'' (HttpContentType a), WriteHeader (httpResponseCode a),
              RwWrite bytes]"
    and "forwardCalls (fst (ServeHTTP env a rw req)) = []"
    and "readAttempts (fst (ServeHTTP env a rw req)) = [OsReadFile (filename a)]"
    and "last (fst (ServeHTTP env a rw req)) = RwWrite bytes"
    and "snd (ServeHTTP env a rw req) = None"
proof -
  obtain evs where q: "quiet evs"
    and s: "ServeHTTP env a rw req
           = (evs @ [OsReadFile (filename a), HeaderAdd ''Content-Type'' (HttpContentType a),
                     WriteHeader (httpResponseCode a), RwWrite bytes], None)"
    using ServeHTTP_served [OF assms] by blast
  note p = quiet_parts [OF q]
  show "responseWrites (fst (ServeHTTP env a rw req))
           = [HeaderAdd ''Content-Type'' (HttpContentType a), WriteHeader (httpResponseCode a),
              RwWrite bytes]"
    using p by (simp add: s parts_append) (simp add: responseWrites_def)
  show "forwardCalls (fst (ServeHTTP env a rw req)) = []"
    using p by (simp add: s parts_append) (simp add: forwardCalls_def)
  show "readAttempts (fst (ServeHTTP env a rw req)) = [OsReadFile (filename a)]"
    using p by (simp add: s parts_append) (simp add: readAttempts_def)
  show "last (fst (ServeHTTP env a rw req)) = RwWrite bytes" by (simp add: s)
  show "snd (ServeHTTP env a rw req) = None" by (simp add: s)
qed

lemma write_fails_facts:
  assumes "decision env a req" and "os_ReadFile env (filename a) = Inr bytes"
    and "checkWriteHeaderCode (httpResponseCode a) = None"
    and "rw_Write rw bytes = Some err"
  shows "responseWrites (fst (ServeHTTP env a rw req))
           = [HeaderAdd ''Content-Type'' (HttpContentType a), WriteHeader (httpResponseCode a),
              RwWrite bytes]"
    and "forwardCalls (fst (ServeHTTP env a rw req)) = [NextServeHTTP (next_h a) req]"
    and "readAttempts (fst (ServeHTTP env a rw req)) = [OsReadFile (filename a)]"
    and "last (fst (ServeHTTP env a rw req)) = NextServeHTTP (next_h a) req"
    and "snd (ServeHTTP env a rw req) = None"
proof -
  obtain evs where q: "quiet evs"
    and s: "ServeHTTP env a rw req
           = (evs @ [OsReadFile (filename a), HeaderAdd ''Content-Type'' (HttpContentType a),
                     WriteHeader (httpResponseCode a), RwWrite bytes,
                     LogPrintf (''Could not serve maintenance template '' @ filename a @ '': '' @ err),
                     NextServeHTTP (next_h a) req], None)"
    using ServeHTTP_write_fails [OF assms] by blast
  note p = quiet_parts [OF q]
  show "responseWrites (fst (ServeHTTP env a rw req))
           = [HeaderAdd ''Content-Type'' (HttpContentType a), WriteHeader (httpResponseCode a),
              RwWrite bytes]"
    using p by (simp add: s parts_append) (simp add: responseWrites_def)
  show "forwardCalls (fst (ServeHTTP env a rw req)) = [NextServeHTTP (next_h a) req]"
    using p by (simp add: s parts_append) (simp add: forwardCalls_def)
  show "readAttempts (fst (ServeHTTP env a rw req)) = [OsReadFile (filename a)]"
    using p by (simp add: s parts_append) (simp add: readAttempts_def)
  show "last (fst (ServeHTTP env a rw req)) = NextServeHTTP (next_h a) req" by (simp add: s)
  show "snd (ServeHTTP env a rw req) = None" by (simp add: s)
qed

lemma checkWriteHeaderCode_cases:
  "(100 \<le> code \<and> code \<le> 999 \<longrightarrow> checkWriteHeaderCode code = None) \<and>
   (code < 100 \<or> 999 < code \<longrightarrow> checkWriteHeaderCode code = Some (InvalidWriteHeaderCode code))"
  by (simp add: checkWriteHeaderCode_def)

text \<open>The body write is reached exactly on the two ways that pass \<open>WriteHeader\<close>.\<close>

lemma RwWrite_reached:
  "RwWrite bytes \<in> set (fst (ServeHTTP env a rw req)) \<longleftrightarrow>
     decision env a req \<and> os_ReadFile env (filename a) = Inr bytes \<and>
     100 \<le> httpResponseCode a \<and> httpResponseCode a \<le> 999"
proof -
  have m: "RwWrite bytes \<in> set T \<longleftrightarrow> RwWrite bytes \<in> set (responseWrites T)" for T
    by (auto simp: responseWrites_def)
  show ?thesis
  proof (cases "decision env a req")
    case False
    then show ?thesis using forward_facts(1) [OF False, of rw] by (simp add: m)
  next
    case d: True
    show ?thesis
    proof (cases "os_ReadFile env (filename a)")
      case (Inl err)
      then show ?thesis using read_fails_facts(1) [OF d Inl, of rw] d by (simp add: m)
    next
      case (Inr b)
      show ?thesis
      proof (cases "checkWriteHeaderCode (httpResponseCode a)")
        case (Some p)
        then have "httpResponseCode a < 100 \<or> 999 < httpResponseCode a"
          by (simp add: checkWriteHeaderCode_def split: if_splits)
        then show ?thesis using bad_code_facts(1) [OF d Inr Some, of rw] by (auto simp: m)
      next
        case None
        then have ok: "100 \<le> httpResponseCode a \<and> httpResponseCode a \<le> 999"
          by (simp add: checkWriteHeaderCode_def split: if_splits)
        show ?thesis
        proof (cases "rw_Write rw b")
          case None': None
          show ?thesis using served_facts(1) [OF d Inr None None'] d Inr ok by (auto simp: m)
        next
          case (Some err)
          show ?thesis using write_fails_facts(1) [OF d Inr None Some] d Inr ok by (auto simp: m)
        qed
      qed
    qed
  qed
qed

text \<open>The one panic of \<open>ServeHTTP\<close>.\<close>

lemma ServeHTTP_panic_iff:
  "snd (ServeHTTP env a rw req) \<noteq> None \<longleftrightarrow>
     decision env a req \<and> (\<exists>b. os_ReadFile env (filename a) = Inr b) \<and>
     (httpResponseCode a < 100 \<or> 999 < httpResponseCode a)"
proof (cases "decision env a req")
  case False
  then show ?thesis using forward_facts(5) [OF False, of rw] by simp
next
  case d: True
  show ?thesis
  proof (cases "os_ReadFile env (filename a)")
    case (Inl err)
    then show ?thesis using read_fails_facts(5) [OF d Inl, of rw] by simp
  next
    case (Inr b)
    show ?thesis
    proof (cases "checkWriteHeaderCode (httpResponseCode a)")
      case (Some p)
      then have "httpResponseCode a < 100 \<or> 999 < httpResponseCode a"
        by (simp add: checkWriteHeaderCode_def split: if_splits)
      then show ?thesis using bad_code_facts(5) [OF d Inr Some, of rw] d Inr by simp
    next
      case c: None
      then have ok: "\<not> (httpResponseCode a < 100 \<or> 999 < httpResponseCode a)"
        by (simp add: checkWriteHeaderCode_def split: if_splits)
      show ?thesis
      proof (cases "rw_Write rw b")
        case None
        show ?thesis using served_facts(5) [OF d Inr c None] ok by simp
      next
        case (Some err)
        show ?thesis using write_fails_facts(5) [OF d Inr c Some] ok by simp
      qed
    qed
  qed
qed

subsection \<open>The example world\<close>

lemma example_allowedBy:
  "allowedBy example_env ''10.0.0.5'' ''10.0.0.0/8''"
  "\<not> allowedBy example_env ''203.0.113.9'' ''10.0.0.0/8''"
  "\<not> allowedBy example_env addr ''not-a-range''"
  "\<not> allowedBy example_env addr ''also-bad''"
  by (simp_all add: allowedBy_def example_env_def Contains_def networkNumberAndMask_def To4_def)

lemma example_resolved:
  "requestGetRemoteAddress (example_request ''10.0.0.5:4000'' url) = Inr ''10.0.0.5''"
  "requestGetRemoteAddress (example_request ''203.0.113.9:4000'' url) = Inr ''203.0.113.9''"
  "requestGetRemoteAddress (example_request ''[::1]:8080'' url) = Inr ''[::1]''"
  by (simp_all add: requestGetRemoteAddress_def example_request_def Get_def
      ipAddrFromRemoteAddr_def LastIndex_def)

lemma example_deniedBy:
  "deniedBy example_env ''/api/widgets'' ''^/api/''"
  "\<not> deniedBy example_env ''/index.html'' ''^/api/''"
  "\<not> deniedBy example_env url ''(unclosed''"
  "\<not> deniedBy example_env url ''[z-a]''"
  by (simp_all add: deniedBy_def example_env_def)

lemma example_checkIgnore:
  "checkIgnore example_env example_page (example_request ''10.0.0.5:4000'' url) = ([], Inr False)"
  "checkIgnore example_env example_page (example_request ''203.0.113.9:4000'' url) = ([], Inr True)"
  by (simp_all add: checkIgnore_def example_resolved example_page_def example_env_def
      Contains_def networkNumberAndMask_def To4_def)

lemma example_checkDenyUri:
  "snd (checkDenyUri example_env example_page (example_request peer ''/'')) = False"
  "snd (checkDenyUri example_env example_page (example_request peer ''/api/widgets'')) = True"
  by (simp_all add: checkDenyUri_def example_request_def example_page_def example_env_def Let_def)

lemma example_decision:
  "\<not> decision example_env example_page (example_request ''10.0.0.5:4000'' ''/'')"
  "decision example_env example_page (example_request ''203.0.113.9:4000'' ''/'')"
  "decision example_env example_page (example_request ''10.0.0.5:4000'' ''/api/widgets'')"
  "decision example_env (example_page \<lparr> filename := ''/srv/missing.html'' \<rparr>)
     (example_request ''10.0.0.5:4000'' ''/api/widgets'')"
  "\<not> decision example_env (example_page \<lparr> enabled := False \<rparr>)
     (example_request ''203.0.113.9:4000'' ''/api/widgets'')"
proof -
  have on: "snd (maintenanceEnabled example_env example_page) = True"
    by (simp add: maintenanceEnabled_def example_page_def)
  show "\<not> decision example_env example_page (example_request ''10.0.0.5:4000'' ''/'')"
    by (simp add: decision_def example_checkIgnore example_checkDenyUri)
  show "decision example_env example_page (example_request ''203.0.113.9:4000'' ''/'')"
    by (simp add: decision_def example_checkIgnore on)
  show "decision example_env example_page (example_request ''10.0.0.5:4000'' ''/api/widgets'')"
    by (simp add: decision_def example_checkDenyUri on)
  show "decision example_env (example_page \<lparr> filename := ''/srv/missing.html'' \<rparr>)
     (example_request ''10.0.0.5:4000'' ''/api/widgets'')"
    by (simp add: decision_def maintenanceEnabled_def checkDenyUri_def example_page_def
        example_env_def example_request_def Let_def)
  show "\<not> decision example_env (example_page \<lparr> enabled := False \<rparr>)
     (example_request ''203.0.113.9:4000'' ''/api/widgets'')"
    by (simp add: decision_def maintenanceEnabled_def)
qed

lemma example_io:
  "os_ReadFile example_env ''/srv/missing.html''
     = Inl ''open /srv/missing.html: no such file or directory''"
  "os_ReadFile example_env ''/srv/maintenance.html'' = Inr [0x3C, 0x68, 0x31, 0x3E]"
  "rw_Write rw_broken bytes = Some ''write: broken pipe''"
  "rw_Write rw_ok bytes = None"
  by (simp_all add: example_env_def rw_broken_def rw_ok_def)

lemma example_write_failure_trace:
  "ServeHTTP example_env example_page rw_broken (example_request ''203.0.113.9:4000'' ''/'')
     = ([OsReadFile ''/srv/maintenance.html'',
         HeaderAdd ''Content-Type'' ''text/html; charset=utf-8'',
         WriteHeader 503,
         RwWrite [0x3C, 0x68, 0x31, 0x3E],
         LogPrintf ''Could not serve maintenance template /srv/maintenance.html: write: broken pipe'',
         NextServeHTTP (Handler ''backend'') (example_request ''203.0.113.9:4000'' ''/'')], None)"
proof -
  have on: "maintenanceEnabled example_env example_page = ([], True)"
    by (simp add: maintenanceEnabled_def example_page_def)
  have "showPage example_env example_page (example_request ''203.0.113.9:4000'' ''/'') = ([], Inr True)"
    by (simp add: showPage_def example_checkIgnore on)
  then show ?thesis
    by (simp add: ServeHTTP_def example_io)
       (simp add: example_page_def example_io checkWriteHeaderCode_def)
qed

lemma example_bad_code_trace:
  "ServeHTTP example_env (example_page \<lparr> httpResponseCode := 0 \<rparr>) rw_ok
      (example_request ''203.0.113.9:4000'' ''/'')
     = ([OsReadFile ''/srv/maintenance.html'',
         HeaderAdd ''Content-Type'' ''text/html; charset=utf-8''],
        Some (InvalidWriteHeaderCode 0))"
proof -
  let ?a = "example_page \<lparr> httpResponseCode := 0 \<rparr>"
  have on: "maintenanceEnabled example_env ?a = ([], True)"
    by (simp add: maintenanceEnabled_def example_page_def)
  have ig: "checkIgnore example_env ?a (example_request ''203.0.113.9:4000'' ''/'') = ([], Inr True)"
    by (simp add: checkIgnore_def example_resolved example_page_def example_env_def
        Contains_def networkNumberAndMask_def To4_def)
  have "showPage example_env ?a (example_request ''203.0.113.9:4000'' ''/'') = ([], Inr True)"
    by (simp add: showPage_def ig on)
  then show ?thesis
    by (simp add: ServeHTTP_def)
       (simp add: example_page_def example_io checkWriteHeaderCode_def)
qed

section \<open>The claims\<close>

text \<open>
  C1. \<open>ServeHTTP\<close> tries to serve the page exactly when \<open>maintenanceEnabled\<close>
  returns true and \<open>checkIgnore\<close> or \<open>checkDenyUri\<close> returns true. The attempt is one
  read of the content file and then, when the read succeeds, the \<open>Content-Type\<close>
  header, the status code and the body, in this order; after a body write that succeeds
  nothing follows, after one that fails the request goes to the next handler. When the
  read fails nothing is written and the request goes to the next handler. When the read
  succeeds and the status code is outside 100..999, the attempt ends after the header,
  in the panic of \<open>WriteHeader\<close>. When \<open>maintenanceEnabled\<close> returns false, or
  \<open>checkIgnore\<close> and \<open>checkDenyUri\<close> both return false, nothing is written to the
  response, the content file is not read, and the call ends with one call of the next
  handler on the request it was given.
\<close>

theorem C1_ServeHTTP_decision:
  "(readAttempts (fst (ServeHTTP env a rw req)) \<noteq> [] \<longleftrightarrow>
      snd (maintenanceEnabled env a) \<and>
      (snd (checkIgnore env a req) = Inr True \<or> snd (checkDenyUri env a req))) \<and>
   (snd (maintenanceEnabled env a) \<and>
    (snd (checkIgnore env a req) = Inr True \<or> snd (checkDenyUri env a req)) \<longrightarrow>
      readAttempts (fst (ServeHTTP env a rw req)) = [OsReadFile (filename a)] \<and>
      (os_ReadFile env (filename a) = Inr bytes \<and>
       100 \<le> httpResponseCode a \<and> httpResponseCode a \<le> 999 \<longrightarrow>
         responseWrites (fst (ServeHTTP env a rw req))
           = [HeaderAdd ''Content-Type'' (HttpContentType a), WriteHeader (httpResponseCode a),
              RwWrite bytes] \<and>
         (rw_Write rw bytes = None \<longrightarrow>
            forwardCalls (fst (ServeHTTP env a rw req)) = [] \<and>
            last (fst (ServeHTTP env a rw req)) = RwWrite bytes \<and>
            snd (ServeHTTP env a rw req) = None) \<and>
         (rw_Write rw bytes = Some werr \<longrightarrow>
            forwardCalls (fst (ServeHTTP env a rw req)) = [NextServeHTTP (next_h a) req] \<and>
            last (fst (ServeHTTP env a rw req)) = NextServeHTTP (next_h a) req \<and>
            snd (ServeHTTP env a rw req) = None)) \<and>
      (os_ReadFile env (filename a) = Inr bytes \<and>
       (httpResponseCode a < 100 \<or> 999 < httpResponseCode a) \<longrightarrow>
         responseWrites (fst (ServeHTTP env a rw req))
           = [HeaderAdd ''Content-Type'' (HttpContentType a)] \<and>
         forwardCalls (fst (ServeHTTP env a rw req)) = [] \<and>
         snd (ServeHTTP env a rw req) = Some (InvalidWriteHeaderCode (httpResponseCode a))) \<and>
      (os_ReadFile env (filename a) = Inl rerr \<longrightarrow>
         responseWrites (fst (ServeHTTP env a rw req)) = [] \<and>
         forwardCalls (fst (ServeHTTP env a rw req)) = [NextServeHTTP (next_h a) req] \<and>
         last (fst (ServeHTTP env a rw req)) = NextServeHTTP (next_h a) req \<and>
         snd (ServeHTTP env a rw req) = None)) \<and>
   (\<not> snd (maintenanceEnabled env a) \<or>
    (snd (checkIgnore env a req) = Inr False \<and> \<not> snd (checkDenyUri env a req)) \<longrightarrow>
      responseWrites (fst (ServeHTTP env a rw req)) = [] \<and>
      readAttempts (fst (ServeHTTP env a rw req)) = [] \<and>
      forwardCalls (fst (ServeHTTP env a rw req)) = [NextServeHTTP (next_h a) req] \<and>
      last (fst (ServeHTTP env a rw req)) = NextServeHTTP (next_h a) req \<and>
      snd (ServeHTTP env a rw req) = None)"
proof -
  let ?T = "fst (ServeHTTP env a rw req)"
  have ok: "checkWriteHeaderCode (httpResponseCode a) = None"
    if "100 \<le> httpResponseCode a \<and> httpResponseCode a \<le> 999"
    using that by (simp add: checkWriteHeaderCode_def)
  have bad: "checkWriteHeaderCode (httpResponseCode a) = Some (InvalidWriteHeaderCode (httpResponseCode a))"
    if "httpResponseCode a < 100 \<or> 999 < httpResponseCode a"
    using that by (simp add: checkWriteHeaderCode_def)
  have attempt: "readAttempts ?T = [OsReadFile (filename a)]" if d: "decision env a req"
  proof (cases "os_ReadFile env (filename a)")
    case (Inl err)
    with d show ?thesis by (rule read_fails_facts(3))
  next
    case (Inr b)
    show ?thesis
    proof (cases "checkWriteHeaderCode (httpResponseCode a)")
      case (Some p)
      with d Inr show ?thesis by (rule bad_code_facts(3))
    next
      case c: None
      show ?thesis
      proof (cases "rw_Write rw b")
        case None
        with d Inr c show ?thesis by (rule served_facts(3))
      next
        case (Some err)
        with d Inr c show ?thesis by (rule write_fails_facts(3))
      qed
    qed
  qed
  have none: "readAttempts ?T = []" if "\<not> decision env a req"
    using that by (rule forward_facts(3))
  have iff: "readAttempts ?T \<noteq> [] \<longleftrightarrow> decision env a req"
    using attempt none by (cases "decision env a req") simp_all
  have neg: "\<not> decision env a req"
    if "\<not> snd (maintenanceEnabled env a) \<or>
        (snd (checkIgnore env a req) = Inr False \<and> \<not> snd (checkDenyUri env a req))"
    using that by (auto simp: decision_def)
  have served: "responseWrites ?T
           = [HeaderAdd ''Content-Type'' (HttpContentType a), WriteHeader (httpResponseCode a),
              RwWrite bytes] \<and>
         (rw_Write rw bytes = None \<longrightarrow>
            forwardCalls ?T = [] \<and> last ?T = RwWrite bytes \<and> snd (ServeHTTP env a rw req) = None) \<and>
         (rw_Write rw bytes = Some werr \<longrightarrow>
            forwardCalls ?T = [NextServeHTTP (next_h a) req] \<and>
            last ?T = NextServeHTTP (next_h a) req \<and> snd (ServeHTTP env a rw req) = None)"
    if d: "decision env a req" and r: "os_ReadFile env (filename a) = Inr bytes"
      and c: "100 \<le> httpResponseCode a \<and> httpResponseCode a \<le> 999"
  proof (cases "rw_Write rw bytes")
    case None
    from served_facts [OF d r ok [OF c] None] None show ?thesis by simp
  next
    case (Some err)
    from write_fails_facts [OF d r ok [OF c] Some] Some show ?thesis by simp
  qed
  have panics: "responseWrites ?T = [HeaderAdd ''Content-Type'' (HttpContentType a)] \<and>
         forwardCalls ?T = [] \<and>
         snd (ServeHTTP env a rw req) = Some (InvalidWriteHeaderCode (httpResponseCode a))"
    if d: "decision env a req" and r: "os_ReadFile env (filename a) = Inr bytes"
      and c: "httpResponseCode a < 100 \<or> 999 < httpResponseCode a"
    using bad_code_facts [OF d r bad [OF c], of rw] by simp
  have unread: "responseWrites ?T = [] \<and> forwardCalls ?T = [NextServeHTTP (next_h a) req] \<and>
         last ?T = NextServeHTTP (next_h a) req \<and> snd (ServeHTTP env a rw req) = None"
    if d: "decision env a req" and r: "os_ReadFile env (filename a) = Inl rerr"
    using read_fails_facts [OF d r, of rw] by simp
  have fwd: "responseWrites ?T = [] \<and> readAttempts ?T = [] \<and>
      forwardCalls ?T = [NextServeHTTP (next_h a) req] \<and>
      last ?T = NextServeHTTP (next_h a) req \<and> snd (ServeHTTP env a rw req) = None"
    if "\<not> decision env a req"
    using forward_facts [OF that, of rw] by simp
  show ?thesis
    using iff attempt served panics unread fwd neg
    unfolding decision_def by blast
qed

theorem C1_ServeHTTP_decision_witness:
  "readAttempts (fst (ServeHTTP example_env example_page rw_ok
       (example_request ''203.0.113.9:4000'' ''/''))) = [OsReadFile ''/srv/maintenance.html''] \<and>
   responseWrites (fst (ServeHTTP example_env example_page rw_ok
       (example_request ''203.0.113.9:4000'' ''/'')))
     = [HeaderAdd ''Content-Type'' ''text/html; charset=utf-8'', WriteHeader 503,
        RwWrite [0x3C, 0x68, 0x31, 0x3E]] \<and>
   forwardCalls (fst (ServeHTTP example_env example_page rw_ok
       (example_request ''203.0.113.9:4000'' ''/''))) = [] \<and>
   readAttempts (fst (ServeHTTP example_env example_page rw_ok
       (example_request ''10.0.0.5:4000'' ''/api/widgets''))) = [OsReadFile ''/srv/maintenance.html''] \<and>
   responseWrites (fst (ServeHTTP example_env example_page rw_ok
       (example_request ''10.0.0.5:4000'' ''/''))) = [] \<and>
   readAttempts (fst (ServeHTTP example_env example_page rw_ok
       (example_request ''10.0.0.5:4000'' ''/''))) = [] \<and>
   forwardCalls (fst (ServeHTTP example_env example_page rw_ok
       (example_request ''10.0.0.5:4000'' ''/'')))
     = [NextServeHTTP (Handler ''backend'') (example_request ''10.0.0.5:4000'' ''/'')] \<and>
   forwardCalls (fst (ServeHTTP example_env (example_page \<lparr> enabled := False \<rparr>) rw_ok
       (example_request ''203.0.113.9:4000'' ''/api/widgets'')))
     = [NextServeHTTP (Handler ''backend'') (example_request ''203.0.113.9:4000'' ''/api/widgets'')]"
proof -
  let ?out = "example_request ''203.0.113.9:4000'' ''/''"
  let ?api = "example_request ''10.0.0.5:4000'' ''/api/widgets''"
  let ?in = "example_request ''10.0.0.5:4000'' ''/''"
  let ?off = "example_page \<lparr> enabled := False \<rparr>"
  let ?offreq = "example_request ''203.0.113.9:4000'' ''/api/widgets''"
  let ?b = "[0x3C, 0x68, 0x31, 0x3E] :: byte list"
  have f: "filename example_page = ''/srv/maintenance.html''"
    and n: "next_h example_page = Handler ''backend''" "next_h ?off = Handler ''backend''"
    and c: "httpResponseCode example_page = 503"
    and t: "HttpContentType example_page = ''text/html; charset=utf-8''"
    by (simp_all add: example_page_def)
  have io: "os_ReadFile example_env (filename example_page) = Inr ?b \<and>
            100 \<le> httpResponseCode example_page \<and> httpResponseCode example_page \<le> 999"
    and w: "rw_Write rw_ok ?b = None"
    by (simp_all add: f c example_io)
  note c1 = C1_ServeHTTP_decision [where env = example_env and a = example_page and rw = rw_ok
      and req = ?out and bytes = ?b and werr = "[]" and rerr = "[]"]
  from example_decision(2) io w c1
  have 1: "readAttempts (fst (ServeHTTP example_env example_page rw_ok ?out))
             = [OsReadFile (filename example_page)]"
    "responseWrites (fst (ServeHTTP example_env example_page rw_ok ?out))
       = [HeaderAdd ''Content-Type'' (HttpContentType example_page),
          WriteHeader (httpResponseCode example_page), RwWrite ?b]"
    "forwardCalls (fst (ServeHTTP example_env example_page rw_ok ?out)) = []"
    unfolding decision_def by blast+
  from example_decision(3)
    C1_ServeHTTP_decision [where env = example_env and a = example_page and rw = rw_ok
      and req = ?api and bytes = ?b and werr = "[]" and rerr = "[]"]
  have 2: "readAttempts (fst (ServeHTTP example_env example_page rw_ok ?api))
             = [OsReadFile (filename example_page)]"
    unfolding decision_def by blast
  have "snd (checkIgnore example_env example_page ?in) = Inr False \<and>
        \<not> snd (checkDenyUri example_env example_page ?in)"
    by (simp add: example_checkIgnore example_checkDenyUri)
  with C1_ServeHTTP_decision [where env = example_env and a = example_page and rw = rw_ok
      and req = ?in and bytes = ?b and werr = "[]" and rerr = "[]"]
  have 3: "responseWrites (fst (ServeHTTP example_env example_page rw_ok ?in)) = []"
    "readAttempts (fst (ServeHTTP example_env example_page rw_ok ?in)) = []"
    "forwardCalls (fst (ServeHTTP example_env example_page rw_ok ?in))
       = [NextServeHTTP (next_h example_page) ?in]"
    by blast+
  have "\<not> snd (maintenanceEnabled example_env ?off)"
    by (simp add: maintenanceEnabled_def)
  with C1_ServeHTTP_decision [where env = example_env and a = ?off and rw = rw_ok
      and req = ?offreq and bytes = ?b and werr = "[]" and rerr = "[]"]
  have 4: "forwardCalls (fst (ServeHTTP example_env ?off rw_ok ?offreq))
       = [NextServeHTTP (next_h ?off) ?offreq]"
    by blast
  from 1 2 3 4 show ?thesis by (simp only: f n c t)
qed

text \<open>
  C2. \<open>maintenanceEnabled\<close> is false whenever \<open>enabled\<close> is false, and true whenever
  \<open>enabled\<close> is true and no trigger file is configured; neither case probes the file
  system. With \<open>enabled\<close> true and a trigger file configured it probes that file once
  and is true exactly when \<open>os.Stat\<close> returns no error: every error gives false.
\<close>

theorem C2_maintenanceEnabled:
  "(\<not> enabled a \<longrightarrow> maintenanceEnabled env a = ([], False)) \<and>
   (enabled a \<and> triggerFilename a = [] \<longrightarrow> maintenanceEnabled env a = ([], True)) \<and>
   (enabled a \<and> triggerFilename a \<noteq> [] \<longrightarrow>
      maintenanceEnabled env a
        = ([OsStat (triggerFilename a)], os_Stat env (triggerFilename a) = None)) \<and>
   (enabled a \<and> triggerFilename a \<noteq> [] \<and> os_Stat env (triggerFilename a) = Some err \<longrightarrow>
      snd (maintenanceEnabled env a) = False)"
  by (auto simp: maintenanceEnabled_def split: option.splits)

theorem C2_maintenanceEnabled_witness:
  "maintenanceEnabled example_env (example_page \<lparr> enabled := False, triggerFilename := ''/run/maintenance.on'' \<rparr>)
     = ([], False) \<and>
   maintenanceEnabled example_env example_page = ([], True) \<and>
   maintenanceEnabled example_env (example_page \<lparr> triggerFilename := ''/run/maintenance.on'' \<rparr>)
     = ([OsStat ''/run/maintenance.on''], True) \<and>
   maintenanceEnabled example_env (example_page \<lparr> triggerFilename := ''/run/absent'' \<rparr>)
     = ([OsStat ''/run/absent''], False)"
  using
    C2_maintenanceEnabled [of "example_page \<lparr> enabled := False, triggerFilename := ''/run/maintenance.on'' \<rparr>" example_env]
    C2_maintenanceEnabled [of example_page example_env]
    C2_maintenanceEnabled [of "example_page \<lparr> triggerFilename := ''/run/maintenance.on'' \<rparr>" example_env]
    C2_maintenanceEnabled [of "example_page \<lparr> triggerFilename := ''/run/absent'' \<rparr>" example_env]
  by (simp add: example_page_def example_env_def)

text \<open>
  C3. The resolved client address. With both \<open>X-Real-Ip\<close> and \<open>X-Forwarded-For\<close>
  empty it is the peer address itself when that has no colon, and otherwise the part
  before its last colon. With \<open>X-Forwarded-For\<close> not empty (whatever \<open>X-Real-Ip\<close>
  holds) it is the first comma-separated segment of that header, trimmed: the segment is
  the result between two runs of white space, and the result neither starts nor ends
  with white space. Otherwise it is the \<open>X-Real-Ip\<close> value as it stands. No case
  panics.
\<close>

theorem C3_resolved_address:
  "(Get (Header r) ''X-Real-Ip'' = [] \<and> Get (Header r) ''X-Forwarded-For'' = [] \<longrightarrow>
      (CHR '':'' \<notin> set (RemoteAddr r) \<longrightarrow> requestGetRemoteAddress r = Inr (RemoteAddr r)) \<and>
      (CHR '':'' \<in> set (RemoteAddr r) \<longrightarrow>
         (\<exists>addr port. requestGetRemoteAddress r = Inr addr \<and>
            RemoteAddr r = addr @ CHR '':'' # port \<and> CHR '':'' \<notin> set port)))
   \<and> (Get (Header r) ''X-Forwarded-For'' \<noteq> [] \<longrightarrow>
        (\<exists>addr ls rs. requestGetRemoteAddress r = Inr addr \<and>
           addr = TrimSpace (takeWhile (\<lambda>c. c \<noteq> CHR '','') (Get (Header r) ''X-Forwarded-For'')) \<and>
           set ls \<subseteq> set whiteSpace \<and> set rs \<subseteq> set whiteSpace \<and>
           takeWhile (\<lambda>c. c \<noteq> CHR '','') (Get (Header r) ''X-Forwarded-For'')
             = concat ls @ addr @ concat rs \<and>
           leadingSpace addr = 0 \<and> trailingSpace addr = 0))
   \<and> (Get (Header r) ''X-Forwarded-For'' = [] \<and> Get (Header r) ''X-Real-Ip'' \<noteq> [] \<longrightarrow>
        requestGetRemoteAddress r = Inr (Get (Header r) ''X-Real-Ip''))"
proof (intro conjI impI)
  assume "Get (Header r) ''X-Real-Ip'' = [] \<and> Get (Header r) ''X-Forwarded-For'' = []"
    and "CHR '':'' \<notin> set (RemoteAddr r)"
  then show "requestGetRemoteAddress r = Inr (RemoteAddr r)"
    by (simp add: requestGetRemoteAddress_def ipAddr_no_colon)
next
  assume h: "Get (Header r) ''X-Real-Ip'' = [] \<and> Get (Header r) ''X-Forwarded-For'' = []"
    and c: "CHR '':'' \<in> set (RemoteAddr r)"
  from c obtain addr port where sp: "RemoteAddr r = addr @ CHR '':'' # port" "CHR '':'' \<notin> set port"
    using split_list_last by fastforce
  have "requestGetRemoteAddress r = Inr (ipAddrFromRemoteAddr (RemoteAddr r))"
    using h by (simp add: requestGetRemoteAddress_def)
  also have "ipAddrFromRemoteAddr (RemoteAddr r) = addr"
    unfolding sp(1) using sp(2) by (rule ipAddr_colon)
  finally show "\<exists>addr port. requestGetRemoteAddress r = Inr addr \<and>
            RemoteAddr r = addr @ CHR '':'' # port \<and> CHR '':'' \<notin> set port"
    using sp by blast
next
  let ?seg = "takeWhile (\<lambda>c. c \<noteq> CHR '','') (Get (Header r) ''X-Forwarded-For'')"
  assume h: "Get (Header r) ''X-Forwarded-For'' \<noteq> []"
  then have res: "requestGetRemoteAddress r = Inr (TrimSpace ?seg)"
    by (simp add: requestGetRemoteAddress_def Let_def index_map_Split)
  from TrimSpace_spec [of ?seg] obtain ls rs where
    "leadingSpace (TrimSpace ?seg) = 0" "trailingSpace (TrimSpace ?seg) = 0"
    "set ls \<subseteq> set whiteSpace" "set rs \<subseteq> set whiteSpace"
    "?seg = concat ls @ TrimSpace ?seg @ concat rs" by blast
  with res show "\<exists>addr ls rs. requestGetRemoteAddress r = Inr addr \<and>
           addr = TrimSpace ?seg \<and>
           set ls \<subseteq> set whiteSpace \<and> set rs \<subseteq> set whiteSpace \<and>
           ?seg = concat ls @ addr @ concat rs \<and>
           leadingSpace addr = 0 \<and> trailingSpace addr = 0" by blast
next
  assume "Get (Header r) ''X-Forwarded-For'' = [] \<and> Get (Header r) ''X-Real-Ip'' \<noteq> []"
  then show "requestGetRemoteAddress r = Inr (Get (Header r) ''X-Real-Ip'')"
    by (simp add: requestGetRemoteAddress_def)
qed

theorem C3_resolved_address_witness:
  "requestGetRemoteAddress req_peer = Inr ''10.0.0.1'' \<and>
   requestGetRemoteAddress req_forwarded = Inr ''1.2.3.4'' \<and>
   requestGetRemoteAddress req_real_ip = Inr '' 9.9.9.9''"
proof -
  have a: "addr = ''10.0.0.1''"
    if "''10.0.0.1:5000'' = addr @ CHR '':'' # port" and "CHR '':'' \<notin> set port" for addr port
    using last_split_unique [of addr "CHR '':''" port "''10.0.0.1''" "''5000''"] that by simp
  show ?thesis
    using C3_resolved_address [of req_peer] C3_resolved_address [of req_forwarded]
      C3_resolved_address [of req_real_ip] TrimSpace_example a
    by (auto simp add: req_peer_def req_forwarded_def req_real_ip_def Get_def)
qed

text \<open>
  C4. \<open>checkIgnore\<close>, for the resolved address \<open>addr\<close>. With an empty allow-list it
  returns true and logs nothing, whatever the address. In general it returns false
  exactly when some entry parses as a network that contains the address as
  \<open>net.ParseIP\<close> reads it. The scan is in order and stops at the first such entry:
  the log then holds a line for each unparsable entry before it and nothing of the
  entries after it. When no entry admits the address the result is true, with a log line
  for every unparsable entry. In particular the result is true when the address does not
  parse (\<open>net.ParseIP\<close> gives \<open>nil\<close>), the networks being those \<open>net.ParseCIDR\<close>
  can return.
\<close>

theorem C4_checkIgnore:
  assumes "requestGetRemoteAddress req = Inr addr"
  shows
  "(IpAllowList a = [] \<longrightarrow> checkIgnore env a req = ([], Inr True)) \<and>
   snd (checkIgnore env a req) = Inr (\<not> (\<exists>entry \<in> set (IpAllowList a). allowedBy env addr entry)) \<and>
   (IpAllowList a = pre @ e # post \<and> (\<forall>x \<in> set pre. \<not> allowedBy env addr x) \<and> allowedBy env addr e
      \<longrightarrow> checkIgnore env a req = (cidrErrors env pre, Inr False)) \<and>
   ((\<forall>x \<in> set (IpAllowList a). \<not> allowedBy env addr x)
      \<longrightarrow> checkIgnore env a req = (cidrErrors env (IpAllowList a), Inr True)) \<and>
   (net_ParseIP env addr = [] \<and>
    (\<forall>entry \<in> set (IpAllowList a). \<forall>n. net_ParseCIDR env entry = Inr n \<longrightarrow> validIPNet n)
      \<longrightarrow> snd (checkIgnore env a req) = Inr True)"
proof (intro conjI impI)
  assume "IpAllowList a = []"
  then show "checkIgnore env a req = ([], Inr True)"
    using assms by (simp add: checkIgnore_def)
next
  have v: "snd (checkIgnore_range env addr (IpAllowList a))
             = (\<not> (\<exists>entry \<in> set (IpAllowList a). allowedBy env addr entry))"
    by (rule checkIgnore_range_value)
  show "snd (checkIgnore env a req) = Inr (\<not> (\<exists>entry \<in> set (IpAllowList a). allowedBy env addr entry))"
  proof (cases "IpAllowList a = []")
    case True
    then show ?thesis using assms by (simp add: checkIgnore_def)
  next
    case False
    then show ?thesis using assms v by (simp add: checkIgnore_def split_beta)
  qed
next
  assume h: "IpAllowList a = pre @ e # post \<and> (\<forall>x \<in> set pre. \<not> allowedBy env addr x) \<and> allowedBy env addr e"
  then have "checkIgnore_range env addr (IpAllowList a) = (cidrErrors env pre, False)"
    using checkIgnore_range_first [of pre env addr e post] by simp
  then show "checkIgnore env a req = (cidrErrors env pre, Inr False)"
    using assms h by (simp add: checkIgnore_def)
next
  assume h: "\<forall>x \<in> set (IpAllowList a). \<not> allowedBy env addr x"
  then have r: "checkIgnore_range env addr (IpAllowList a) = (cidrErrors env (IpAllowList a), True)"
    by (rule checkIgnore_range_none)
  show "checkIgnore env a req = (cidrErrors env (IpAllowList a), Inr True)"
  proof (cases "IpAllowList a = []")
    case True
    then show ?thesis using assms by (simp add: checkIgnore_def cidrErrors_def)
  next
    case False
    then show ?thesis using assms r by (simp add: checkIgnore_def)
  qed
next
  assume h: "net_ParseIP env addr = [] \<and>
    (\<forall>entry \<in> set (IpAllowList a). \<forall>n. net_ParseCIDR env entry = Inr n \<longrightarrow> validIPNet n)"
  then have "\<forall>x \<in> set (IpAllowList a). \<not> allowedBy env addr x"
    using not_allowedBy_nil [of env addr] by blast
  then have "checkIgnore_range env addr (IpAllowList a) = (cidrErrors env (IpAllowList a), True)"
    by (rule checkIgnore_range_none)
  then show "snd (checkIgnore env a req) = Inr True"
    using assms by (simp add: checkIgnore_def)
qed

theorem C4_checkIgnore_witness:
  "checkIgnore example_env (example_page \<lparr> IpAllowList := [] \<rparr>)
      (example_request ''10.0.0.5:4000'' ''/'') = ([], Inr True) \<and>
   checkIgnore example_env (example_page \<lparr> IpAllowList := [''not-a-range'', ''10.0.0.0/8'', ''also-bad''] \<rparr>)
      (example_request ''10.0.0.5:4000'' ''/'')
     = ([LogPrintf (''Could not parse allowedIP '' @ [CHR 0x27] @ ''not-a-range'' @ [CHR 0x27]
                      @ '': invalid CIDR address: not-a-range'')], Inr False) \<and>
   checkIgnore example_env (example_page \<lparr> IpAllowList := [''not-a-range'', ''10.0.0.0/8'', ''also-bad''] \<rparr>)
      (example_request ''203.0.113.9:4000'' ''/'')
     = ([LogPrintf (''Could not parse allowedIP '' @ [CHR 0x27] @ ''not-a-range'' @ [CHR 0x27]
                      @ '': invalid CIDR address: not-a-range''),
         LogPrintf (''Could not parse allowedIP '' @ [CHR 0x27] @ ''also-bad'' @ [CHR 0x27]
                      @ '': invalid CIDR address: also-bad'')], Inr True) \<and>
   snd (checkIgnore example_env example_page (example_request ''[::1]:8080'' ''/'')) = Inr True"
proof (intro conjI)
  let ?a = "example_page \<lparr> IpAllowList := [''not-a-range'', ''10.0.0.0/8'', ''also-bad''] \<rparr>"
  let ?e = "example_page \<lparr> IpAllowList := [] \<rparr>"
  note r1 = example_resolved(1) [of "''/''"]
  note r2 = example_resolved(2) [of "''/''"]
  note r3 = example_resolved(3) [of "''/''"]
  have "IpAllowList ?e = []" by simp
  with C4_checkIgnore [OF r1, where a = ?e and env = example_env and pre = "[]" and e = "[]" and post = "[]"]
  show "checkIgnore example_env ?e (example_request ''10.0.0.5:4000'' ''/'') = ([], Inr True)"
    by blast
  have "IpAllowList ?a = [''not-a-range''] @ ''10.0.0.0/8'' # [''also-bad''] \<and>
        (\<forall>x \<in> set [''not-a-range'']. \<not> allowedBy example_env ''10.0.0.5'' x) \<and>
        allowedBy example_env ''10.0.0.5'' ''10.0.0.0/8''"
    by (simp add: example_allowedBy)
  with C4_checkIgnore [OF r1, where a = ?a and env = example_env
        and pre = "[''not-a-range'']" and e = "''10.0.0.0/8''" and post = "[''also-bad'']"]
  have "checkIgnore example_env ?a (example_request ''10.0.0.5:4000'' ''/'')
          = (cidrErrors example_env [''not-a-range''], Inr False)"
    by blast
  then show "checkIgnore example_env ?a (example_request ''10.0.0.5:4000'' ''/'')
     = ([LogPrintf (''Could not parse allowedIP '' @ [CHR 0x27] @ ''not-a-range'' @ [CHR 0x27]
                      @ '': invalid CIDR address: not-a-range'')], Inr False)"
    by (simp add: cidrErrors_def example_env_def)
  have "\<forall>x \<in> set (IpAllowList ?a). \<not> allowedBy example_env ''203.0.113.9'' x"
    by (simp add: example_allowedBy)
  with C4_checkIgnore [OF r2, where a = ?a and env = example_env
        and pre = "[]" and e = "[]" and post = "[]"]
  have "checkIgnore example_env ?a (example_request ''203.0.113.9:4000'' ''/'')
          = (cidrErrors example_env (IpAllowList ?a), Inr True)"
    by blast
  then show "checkIgnore example_env ?a (example_request ''203.0.113.9:4000'' ''/'')
     = ([LogPrintf (''Could not parse allowedIP '' @ [CHR 0x27] @ ''not-a-range'' @ [CHR 0x27]
                      @ '': invalid CIDR address: not-a-range''),
         LogPrintf (''Could not parse allowedIP '' @ [CHR 0x27] @ ''also-bad'' @ [CHR 0x27]
                      @ '': invalid CIDR address: also-bad'')], Inr True)"
    by (simp add: cidrErrors_def example_env_def)
  have "net_ParseIP example_env ''[::1]'' = [] \<and>
        (\<forall>entry \<in> set (IpAllowList example_page). \<forall>n.
            net_ParseCIDR example_env entry = Inr n \<longrightarrow> validIPNet n)"
    by (simp add: example_env_def example_page_def validIPNet_def)
  with C4_checkIgnore [OF r3, where a = example_page and env = example_env
        and pre = "[]" and e = "[]" and post = "[]"]
  show "snd (checkIgnore example_env example_page (example_request ''[::1]:8080'' ''/'')) = Inr True"
    by blast
qed

text \<open>
  C5. \<open>checkDenyUri\<close>. With an empty list it returns false. In general it returns
  true exactly when some pattern compiles and the compiled pattern matches the request's
  URI text. The scan is in order and stops at the first such pattern: the log holds the
  URI line and one line for each pattern up to that one, none for the patterns after it.
  When no pattern denies the URI the result is false and every pattern has its log
  line. A pattern that does not compile never counts as a match and does not end the
  scan: the result is the one the list without it gives.
\<close>

theorem C5_checkDenyUri:
  "(DenyUri a = [] \<longrightarrow> checkDenyUri env a req = ([LogPrintf (''URL: '' @ URL_String req)], False)) \<and>
   snd (checkDenyUri env a req) = (\<exists>pattern \<in> set (DenyUri a). deniedBy env (URL_String req) pattern) \<and>
   (DenyUri a = pre @ p # post \<and> (\<forall>x \<in> set pre. \<not> deniedBy env (URL_String req) x) \<and>
    deniedBy env (URL_String req) p
      \<longrightarrow> checkDenyUri env a req
            = (LogPrintf (''URL: '' @ URL_String req) # patternLines (URL_String req) (pre @ [p]), True)) \<and>
   ((\<forall>x \<in> set (DenyUri a). \<not> deniedBy env (URL_String req) x)
      \<longrightarrow> checkDenyUri env a req
            = (LogPrintf (''URL: '' @ URL_String req) # patternLines (URL_String req) (DenyUri a), False)) \<and>
   (regexp_Compile env q = Inl err
      \<longrightarrow> \<not> deniedBy env (URL_String req) q \<and>
          snd (checkDenyUri_range env (URL_String req) (pre @ q # post))
            = snd (checkDenyUri_range env (URL_String req) (pre @ post)))"
proof (intro conjI impI)
  assume "DenyUri a = []"
  then show "checkDenyUri env a req = ([LogPrintf (''URL: '' @ URL_String req)], False)"
    by (simp add: checkDenyUri_def)
next
  have v: "snd (checkDenyUri_range env (URL_String req) (DenyUri a))
             = (\<exists>pattern \<in> set (DenyUri a). deniedBy env (URL_String req) pattern)"
    by (rule checkDenyUri_range_value)
  show "snd (checkDenyUri env a req) = (\<exists>pattern \<in> set (DenyUri a). deniedBy env (URL_String req) pattern)"
  proof (cases "DenyUri a = []")
    case True
    then show ?thesis by (simp add: checkDenyUri_def)
  next
    case False
    then show ?thesis using v by (simp add: checkDenyUri_def split_beta Let_def)
  qed
next
  assume h: "DenyUri a = pre @ p # post \<and> (\<forall>x \<in> set pre. \<not> deniedBy env (URL_String req) x) \<and>
    deniedBy env (URL_String req) p"
  then have "checkDenyUri_range env (URL_String req) (DenyUri a)
               = (patternLines (URL_String req) (pre @ [p]), True)"
    using checkDenyUri_range_first [of pre env "URL_String req" p post] by simp
  then show "checkDenyUri env a req
            = (LogPrintf (''URL: '' @ URL_String req) # patternLines (URL_String req) (pre @ [p]), True)"
    using h by (simp add: checkDenyUri_def Let_def)
next
  assume h: "\<forall>x \<in> set (DenyUri a). \<not> deniedBy env (URL_String req) x"
  then have r: "checkDenyUri_range env (URL_String req) (DenyUri a)
                  = (patternLines (URL_String req) (DenyUri a), False)"
    by (rule checkDenyUri_range_none)
  show "checkDenyUri env a req
            = (LogPrintf (''URL: '' @ URL_String req) # patternLines (URL_String req) (DenyUri a), False)"
  proof (cases "DenyUri a = []")
    case True
    then show ?thesis by (simp add: checkDenyUri_def patternLines_def)
  next
    case False
    then show ?thesis using r by (simp add: checkDenyUri_def Let_def)
  qed
next
  assume "regexp_Compile env q = Inl err"
  then show "\<not> deniedBy env (URL_String req) q" by (simp add: deniedBy_def)
next
  assume "regexp_Compile env q = Inl err"
  then show "snd (checkDenyUri_range env (URL_String req) (pre @ q # post))
            = snd (checkDenyUri_range env (URL_String req) (pre @ post))"
    by (rule checkDenyUri_range_skip)
qed

theorem C5_checkDenyUri_witness:
  "checkDenyUri example_env (example_page \<lparr> DenyUri := [] \<rparr>) (example_request ''10.0.0.5:4000'' ''/api/widgets'')
     = ([LogPrintf ''URL: /api/widgets''], False) \<and>
   checkDenyUri example_env (example_page \<lparr> DenyUri := [''(unclosed'', ''^/api/'', ''[z-a]''] \<rparr>)
      (example_request ''10.0.0.5:4000'' ''/api/widgets'')
     = ([LogPrintf ''URL: /api/widgets'',
         LogPrintf ''URL: /api/widgets | Pattern: (unclosed'',
         LogPrintf ''URL: /api/widgets | Pattern: ^/api/''], True) \<and>
   checkDenyUri example_env (example_page \<lparr> DenyUri := [''(unclosed'', ''^/api/'', ''[z-a]''] \<rparr>)
      (example_request ''10.0.0.5:4000'' ''/index.html'')
     = ([LogPrintf ''URL: /index.html'',
         LogPrintf ''URL: /index.html | Pattern: (unclosed'',
         LogPrintf ''URL: /index.html | Pattern: ^/api/'',
         LogPrintf ''URL: /index.html | Pattern: [z-a]''], False) \<and>
   \<not> deniedBy example_env ''/api/widgets'' ''(unclosed''"
proof (intro conjI)
  let ?a = "example_page \<lparr> DenyUri := [''(unclosed'', ''^/api/'', ''[z-a]''] \<rparr>"
  let ?e = "example_page \<lparr> DenyUri := [] \<rparr>"
  let ?r1 = "example_request ''10.0.0.5:4000'' ''/api/widgets''"
  let ?r2 = "example_request ''10.0.0.5:4000'' ''/index.html''"
  have u1: "URL_String ?r1 = ''/api/widgets''" and u2: "URL_String ?r2 = ''/index.html''"
    by (simp_all add: example_request_def)
  have "DenyUri ?e = []" by simp
  with C5_checkDenyUri [where a = ?e and env = example_env and req = ?r1
      and pre = "[]" and p = "[]" and post = "[]" and q = "[]" and err = "[]"]
  have "checkDenyUri example_env ?e ?r1 = ([LogPrintf (''URL: '' @ URL_String ?r1)], False)"
    by blast
  then show "checkDenyUri example_env ?e ?r1 = ([LogPrintf ''URL: /api/widgets''], False)"
    by (simp add: u1)
  have "DenyUri ?a = [''(unclosed''] @ ''^/api/'' # [''[z-a]''] \<and>
        (\<forall>x \<in> set [''(unclosed'']. \<not> deniedBy example_env (URL_String ?r1) x) \<and>
        deniedBy example_env (URL_String ?r1) ''^/api/''"
    by (simp add: example_deniedBy u1)
  with C5_checkDenyUri [where a = ?a and env = example_env and req = ?r1
      and pre = "[''(unclosed'']" and p = "''^/api/''" and post = "[''[z-a]'']" and q = "[]" and err = "[]"]
  have "checkDenyUri example_env ?a ?r1
          = (LogPrintf (''URL: '' @ URL_String ?r1)
               # patternLines (URL_String ?r1) ([''(unclosed''] @ [''^/api/'']), True)"
    by blast
  then show "checkDenyUri example_env ?a ?r1
     = ([LogPrintf ''URL: /api/widgets'',
         LogPrintf ''URL: /api/widgets | Pattern: (unclosed'',
         LogPrintf ''URL: /api/widgets | Pattern: ^/api/''], True)"
    by (simp add: u1 patternLines_def)
  have "\<forall>x \<in> set (DenyUri ?a). \<not> deniedBy example_env (URL_String ?r2) x"
    by (simp add: example_deniedBy u2)
  with C5_checkDenyUri [where a = ?a and env = example_env and req = ?r2
      and pre = "[]" and p = "[]" and post = "[]" and q = "[]" and err = "[]"]
  have "checkDenyUri example_env ?a ?r2
          = (LogPrintf (''URL: '' @ URL_String ?r2) # patternLines (URL_String ?r2) (DenyUri ?a), False)"
    by blast
  then show "checkDenyUri example_env ?a ?r2
     = ([LogPrintf ''URL: /index.html'',
         LogPrintf ''URL: /index.html | Pattern: (unclosed'',
         LogPrintf ''URL: /index.html | Pattern: ^/api/'',
         LogPrintf ''URL: /index.html | Pattern: [z-a]''], False)"
    by (simp add: u2 patternLines_def)
  have "regexp_Compile example_env ''(unclosed'' = Inl ''error parsing regexp: (unclosed''"
    by (simp add: example_env_def)
  with C5_checkDenyUri [where a = ?a and env = example_env and req = ?r1
      and pre = "[]" and p = "[]" and post = "[]" and q = "''(unclosed''"
      and err = "''error parsing regexp: (unclosed''"]
  have "\<not> deniedBy example_env (URL_String ?r1) ''(unclosed''" by blast
  then show "\<not> deniedBy example_env ''/api/widgets'' ''(unclosed''" by (simp add: u1)
qed

text \<open>
  C6. With the page to be shown, a failure to read the content file leaves the response
  untouched and the request goes to the next handler. A body write that was reached and
  fails, the header and the status code being written by then, sends the request there
  as well. In both cases the file is read once, the next handler is called once, as the
  last step, nothing is retried, and \<open>ServeHTTP\<close> ends without a panic.
  \<open>ServeHTTP\<close> has no result, so no error is returned in any case. The body write is
  reached exactly when the page is to be shown, the read succeeds and the status code
  is within 100..999; the one panic of \<open>ServeHTTP\<close> is that of \<open>WriteHeader\<close> for a
  code outside this range, which comes before the body write and is neither of the two
  failures.
\<close>

theorem C6_ServeHTTP_io_failure:
  "(snd (maintenanceEnabled env a) \<and>
    (snd (checkIgnore env a req) = Inr True \<or> snd (checkDenyUri env a req)) \<and>
    os_ReadFile env (filename a) = Inl err \<longrightarrow>
      forwardCalls (fst (ServeHTTP env a rw req)) = [NextServeHTTP (next_h a) req] \<and>
      last (fst (ServeHTTP env a rw req)) = NextServeHTTP (next_h a) req \<and>
      readAttempts (fst (ServeHTTP env a rw req)) = [OsReadFile (filename a)] \<and>
      responseWrites (fst (ServeHTTP env a rw req)) = [] \<and>
      snd (ServeHTTP env a rw req) = None) \<and>
   (RwWrite bytes \<in> set (fst (ServeHTTP env a rw req)) \<and> rw_Write rw bytes = Some err' \<longrightarrow>
      forwardCalls (fst (ServeHTTP env a rw req)) = [NextServeHTTP (next_h a) req] \<and>
      last (fst (ServeHTTP env a rw req)) = NextServeHTTP (next_h a) req \<and>
      readAttempts (fst (ServeHTTP env a rw req)) = [OsReadFile (filename a)] \<and>
      responseWrites (fst (ServeHTTP env a rw req))
        = [HeaderAdd ''Content-Type'' (HttpContentType a), WriteHeader (httpResponseCode a),
           RwWrite bytes] \<and>
      snd (ServeHTTP env a rw req) = None) \<and>
   (RwWrite bytes \<in> set (fst (ServeHTTP env a rw req)) \<longleftrightarrow>
      snd (maintenanceEnabled env a) \<and>
      (snd (checkIgnore env a req) = Inr True \<or> snd (checkDenyUri env a req)) \<and>
      os_ReadFile env (filename a) = Inr bytes \<and>
      100 \<le> httpResponseCode a \<and> httpResponseCode a \<le> 999) \<and>
   (snd (ServeHTTP env a rw req) \<noteq> None \<longleftrightarrow>
      snd (maintenanceEnabled env a) \<and>
      (snd (checkIgnore env a req) = Inr True \<or> snd (checkDenyUri env a req)) \<and>
      (\<exists>b. os_ReadFile env (filename a) = Inr b) \<and>
      (httpResponseCode a < 100 \<or> 999 < httpResponseCode a))"
proof (intro conjI impI)
  assume h: "snd (maintenanceEnabled env a) \<and>
    (snd (checkIgnore env a req) = Inr True \<or> snd (checkDenyUri env a req)) \<and>
    os_ReadFile env (filename a) = Inl err"
  then have d: "decision env a req" and r: "os_ReadFile env (filename a) = Inl err"
    by (simp_all add: decision_def)
  show "forwardCalls (fst (ServeHTTP env a rw req)) = [NextServeHTTP (next_h a) req]"
    using d r by (rule read_fails_facts(2))
  show "last (fst (ServeHTTP env a rw req)) = NextServeHTTP (next_h a) req"
    using d r by (rule read_fails_facts(4))
  show "readAttempts (fst (ServeHTTP env a rw req)) = [OsReadFile (filename a)]"
    using d r by (rule read_fails_facts(3))
  show "responseWrites (fst (ServeHTTP env a rw req)) = []"
    using d r by (rule read_fails_facts(1))
  show "snd (ServeHTTP env a rw req) = None"
    using d r by (rule read_fails_facts(5))
next
  assume h: "RwWrite bytes \<in> set (fst (ServeHTTP env a rw req)) \<and> rw_Write rw bytes = Some err'"
  then have d: "decision env a req" and r: "os_ReadFile env (filename a) = Inr bytes"
    and c: "checkWriteHeaderCode (httpResponseCode a) = None"
    and w: "rw_Write rw bytes = Some err'"
    by (simp_all add: RwWrite_reached checkWriteHeaderCode_def)
  show "forwardCalls (fst (ServeHTTP env a rw req)) = [NextServeHTTP (next_h a) req]"
    using d r c w by (rule write_fails_facts(2))
  show "last (fst (ServeHTTP env a rw req)) = NextServeHTTP (next_h a) req"
    using d r c w by (rule write_fails_facts(4))
  show "readAttempts (fst (ServeHTTP env a rw req)) = [OsReadFile (filename a)]"
    using d r c w by (rule write_fails_facts(3))
  show "responseWrites (fst (ServeHTTP env a rw req))
        = [HeaderAdd ''Content-Type'' (HttpContentType a), WriteHeader (httpResponseCode a),
           RwWrite bytes]"
    using d r c w by (rule write_fails_facts(1))
  show "snd (ServeHTTP env a rw req) = None"
    using d r c w by (rule write_fails_facts(5))
next
  show "RwWrite bytes \<in> set (fst (ServeHTTP env a rw req)) \<longleftrightarrow>
      snd (maintenanceEnabled env a) \<and>
      (snd (checkIgnore env a req) = Inr True \<or> snd (checkDenyUri env a req)) \<and>
      os_ReadFile env (filename a) = Inr bytes \<and>
      100 \<le> httpResponseCode a \<and> httpResponseCode a \<le> 999"
    using RwWrite_reached [of bytes env a rw req] unfolding decision_def by blast
next
  show "snd (ServeHTTP env a rw req) \<noteq> None \<longleftrightarrow>
      snd (maintenanceEnabled env a) \<and>
      (snd (checkIgnore env a req) = Inr True \<or> snd (checkDenyUri env a req)) \<and>
      (\<exists>b. os_ReadFile env (filename a) = Inr b) \<and>
      (httpResponseCode a < 100 \<or> 999 < httpResponseCode a)"
    using ServeHTTP_panic_iff [of env a rw req] unfolding decision_def by blast
qed

theorem C6_ServeHTTP_io_failure_witness:
  "forwardCalls (fst (ServeHTTP example_env (example_page \<lparr> filename := ''/srv/missing.html'' \<rparr>) rw_ok
       (example_request ''10.0.0.5:4000'' ''/api/widgets'')))
     = [NextServeHTTP (Handler ''backend'') (example_request ''10.0.0.5:4000'' ''/api/widgets'')] \<and>
   responseWrites (fst (ServeHTTP example_env (example_page \<lparr> filename := ''/srv/missing.html'' \<rparr>) rw_ok
       (example_request ''10.0.0.5:4000'' ''/api/widgets''))) = [] \<and>
   readAttempts (fst (ServeHTTP example_env (example_page \<lparr> filename := ''/srv/missing.html'' \<rparr>) rw_ok
       (example_request ''10.0.0.5:4000'' ''/api/widgets''))) = [OsReadFile ''/srv/missing.html''] \<and>
   RwWrite [0x3C, 0x68, 0x31, 0x3E] \<in> set (fst (ServeHTTP example_env example_page rw_broken
       (example_request ''203.0.113.9:4000'' ''/''))) \<and>
   forwardCalls (fst (ServeHTTP example_env example_page rw_broken
       (example_request ''203.0.113.9:4000'' ''/'')))
     = [NextServeHTTP (Handler ''backend'') (example_request ''203.0.113.9:4000'' ''/'')] \<and>
   readAttempts (fst (ServeHTTP example_env example_page rw_broken
       (example_request ''203.0.113.9:4000'' ''/''))) = [OsReadFile ''/srv/maintenance.html''] \<and>
   snd (ServeHTTP example_env example_page rw_broken
       (example_request ''203.0.113.9:4000'' ''/'')) = None"
proof -
  let ?m = "example_page \<lparr> filename := ''/srv/missing.html'' \<rparr>"
  let ?api = "example_request ''10.0.0.5:4000'' ''/api/widgets''"
  let ?out = "example_request ''203.0.113.9:4000'' ''/''"
  let ?b = "[0x3C, 0x68, 0x31, 0x3E] :: byte list"
  have f: "filename ?m = ''/srv/missing.html''" "filename example_page = ''/srv/maintenance.html''"
    and n: "next_h ?m = Handler ''backend''" "next_h example_page = Handler ''backend''"
    by (simp_all add: example_page_def)
  have "snd (maintenanceEnabled example_env ?m) \<and>
    (snd (checkIgnore example_env ?m ?api) = Inr True \<or> snd (checkDenyUri example_env ?m ?api)) \<and>
    os_ReadFile example_env (filename ?m) = Inl ''open /srv/missing.html: no such file or directory''"
    using example_decision(4) example_io(1) by (simp add: decision_def)
  with C6_ServeHTTP_io_failure [where env = example_env and a = ?m and rw = rw_ok and req = ?api
      and err = "''open /srv/missing.html: no such file or directory''"
      and bytes = "[]" and err' = "[]"]
  have 1: "forwardCalls (fst (ServeHTTP example_env ?m rw_ok ?api)) = [NextServeHTTP (next_h ?m) ?api]"
    "responseWrites (fst (ServeHTTP example_env ?m rw_ok ?api)) = []"
    "readAttempts (fst (ServeHTTP example_env ?m rw_ok ?api)) = [OsReadFile (filename ?m)]"
    by blast+
  have r: "RwWrite ?b \<in> set (fst (ServeHTTP example_env example_page rw_broken ?out))"
    by (simp add: example_write_failure_trace)
  have "RwWrite ?b \<in> set (fst (ServeHTTP example_env example_page rw_broken ?out)) \<and>
        rw_Write rw_broken ?b = Some ''write: broken pipe''"
    using r example_io(3) by simp
  with C6_ServeHTTP_io_failure [where env = example_env and a = example_page and rw = rw_broken
      and req = ?out and err = "[]" and bytes = ?b and err' = "''write: broken pipe''"]
  have 2: "forwardCalls (fst (ServeHTTP example_env example_page rw_broken ?out))
            = [NextServeHTTP (next_h example_page) ?out]"
    "readAttempts (fst (ServeHTTP example_env example_page rw_broken ?out))
       = [OsReadFile (filename example_page)]"
    "snd (ServeHTTP example_env example_page rw_broken ?out) = None"
    by blast+
  from 1 r 2 show ?thesis by (simp only: f n)
qed

text \<open>
  C7. \<open>New\<close> returns an error exactly when \<open>Filename\<close> is empty. For every other
  configuration it returns a handler that carries the status code, the content type,
  the allow-list and the deny-uri list (and the remaining fields) unchanged.
\<close>

theorem C7_New:
  "((\<exists>err. New ctx nxt config nm = Inl err) \<longleftrightarrow> Filename config = []) \<and>
   (Filename config \<noteq> [] \<longrightarrow>
      (\<exists>h. New ctx nxt config nm = Inr h \<and>
         httpResponseCode h = HttpResponseCode config \<and>
         HttpContentType h = Config.HttpContentType config \<and>
         IpAllowList h = Config.IpAllowList config \<and>
         DenyUri h = Config.DenyUri config \<and>
         enabled h = Enabled config \<and> filename h = Filename config \<and>
         triggerFilename h = TriggerFilename config \<and> next_h h = nxt \<and> name h = nm))"
  by (simp add: New_def)

theorem C7_New_witness:
  "New () (Handler ''backend'') CreateConfig ''maintenance'' = Inl ''filename cannot be empty'' \<and>
   (\<exists>h. New () (Handler ''backend'') example_config ''maintenance'' = Inr h \<and>
        httpResponseCode h = 503 \<and> HttpContentType h = ''text/html; charset=utf-8'' \<and>
        IpAllowList h = [''not-a-range'', ''10.0.0.0/8''] \<and> DenyUri h = [''(unclosed'', ''^/api/''])"
  using C7_New [of "()" "Handler ''backend''" CreateConfig "''maintenance''"]
    C7_New [of "()" "Handler ''backend''" example_config "''maintenance''"]
  by (auto simp add: CreateConfig_def example_config_def New_def)

text \<open>
  C8 as stated does not hold. When the body cannot be written, the header and the status
  code are already on the response and the request is forwarded all the same. And when
  the configured status code is one \<open>WriteHeader\<close> refuses, a page that is to be
  served ends after the header, in a panic, with neither a body nor a forward. In the
  example world, first with a response writer whose \<open>Write\<close> fails, then with the
  status code 0:
\<close>

theorem C8_write_failure_counterexample:
  "ServeHTTP example_env example_page rw_broken (example_request ''203.0.113.9:4000'' ''/'')
     = ([OsReadFile ''/srv/maintenance.html'',
         HeaderAdd ''Content-Type'' ''text/html; charset=utf-8'',
         WriteHeader 503,
         RwWrite [0x3C, 0x68, 0x31, 0x3E],
         LogPrintf ''Could not serve maintenance template /srv/maintenance.html: write: broken pipe'',
         NextServeHTTP (Handler ''backend'') (example_request ''203.0.113.9:4000'' ''/'')], None) \<and>
   responseWrites (fst (ServeHTTP example_env example_page rw_broken
       (example_request ''203.0.113.9:4000'' ''/''))) \<noteq> [] \<and>
   forwardCalls (fst (ServeHTTP example_env example_page rw_broken
       (example_request ''203.0.113.9:4000'' ''/''))) \<noteq> [] \<and>
   ServeHTTP example_env (example_page \<lparr> httpResponseCode := 0 \<rparr>) rw_ok
       (example_request ''203.0.113.9:4000'' ''/'')
     = ([OsReadFile ''/srv/maintenance.html'',
         HeaderAdd ''Content-Type'' ''text/html; charset=utf-8''],
        Some (InvalidWriteHeaderCode 0))"
  by (simp add: example_write_failure_trace example_bad_code_trace responseWrites_def forwardCalls_def)

text \<open>
  C8, amended. Every request ends in exactly one of four ways. (a) The page is written
  in full, one \<open>Content-Type\<close> header, the status code, the body, and nothing follows:
  the next handler is not called. (b) Nothing is written and the next handler is called
  once, last, with the request as it came: the page is not to be shown, or the content
  file cannot be read. (c) The body write fails: the header and the status code are
  written, the body write was tried, and the next handler is then called once, last,
  with the request as it came. (d) The page is to be shown, the content is read and the
  status code is outside 100..999: the header is added, \<open>WriteHeader\<close> panics, no body
  is written and the next handler is not called. What was written and whether the next
  handler was called tell the four apart.
\<close>

theorem C8_ServeHTTP_outcomes:
  "(\<exists>bytes. decision env a req \<and> os_ReadFile env (filename a) = Inr bytes \<and>
        100 \<le> httpResponseCode a \<and> httpResponseCode a \<le> 999 \<and> rw_Write rw bytes = None \<and>
        responseWrites (fst (ServeHTTP env a rw req))
          = [HeaderAdd ''Content-Type'' (HttpContentType a), WriteHeader (httpResponseCode a),
             RwWrite bytes] \<and>
        last (fst (ServeHTTP env a rw req)) = RwWrite bytes \<and>
        forwardCalls (fst (ServeHTTP env a rw req)) = [] \<and>
        snd (ServeHTTP env a rw req) = None)
    \<or> ((\<not> decision env a req \<or> (\<exists>err. os_ReadFile env (filename a) = Inl err)) \<and>
        responseWrites (fst (ServeHTTP env a rw req)) = [] \<and>
        forwardCalls (fst (ServeHTTP env a rw req)) = [NextServeHTTP (next_h a) req] \<and>
        last (fst (ServeHTTP env a rw req)) = NextServeHTTP (next_h a) req \<and>
        snd (ServeHTTP env a rw req) = None)
    \<or> (\<exists>bytes err. decision env a req \<and> os_ReadFile env (filename a) = Inr bytes \<and>
        100 \<le> httpResponseCode a \<and> httpResponseCode a \<le> 999 \<and> rw_Write rw bytes = Some err \<and>
        responseWrites (fst (ServeHTTP env a rw req))
          = [HeaderAdd ''Content-Type'' (HttpContentType a), WriteHeader (httpResponseCode a),
             RwWrite bytes] \<and>
        forwardCalls (fst (ServeHTTP env a rw req)) = [NextServeHTTP (next_h a) req] \<and>
        last (fst (ServeHTTP env a rw req)) = NextServeHTTP (next_h a) req \<and>
        snd (ServeHTTP env a rw req) = None)
    \<or> (\<exists>bytes. decision env a req \<and> os_ReadFile env (filename a) = Inr bytes \<and>
        (httpResponseCode a < 100 \<or> 999 < httpResponseCode a) \<and>
        responseWrites (fst (ServeHTTP env a rw req))
          = [HeaderAdd ''Content-Type'' (HttpContentType a)] \<and>
        last (fst (ServeHTTP env a rw req)) = HeaderAdd ''Content-Type'' (HttpContentType a) \<and>
        forwardCalls (fst (ServeHTTP env a rw req)) = [] \<and>
        snd (ServeHTTP env a rw req) = Some (InvalidWriteHeaderCode (httpResponseCode a)))"
proof (cases "decision env a req")
  case False
  from forward_facts(1,2,4,5) [OF False, of rw] False show ?thesis by blast
next
  case d: True
  show ?thesis
  proof (cases "os_ReadFile env (filename a)")
    case (Inl err)
    from read_fails_facts(1,2,4,5) [OF d Inl, of rw] Inl show ?thesis by blast
  next
    case (Inr bytes)
    show ?thesis
    proof (cases "100 \<le> httpResponseCode a \<and> httpResponseCode a \<le> 999")
      case False
      then have c: "httpResponseCode a < 100 \<or> 999 < httpResponseCode a" by auto
      then have "checkWriteHeaderCode (httpResponseCode a)
                   = Some (InvalidWriteHeaderCode (httpResponseCode a))"
        by (simp add: checkWriteHeaderCode_def)
      from bad_code_facts(1,2,4,5) [OF d Inr this, of rw] d Inr c show ?thesis by blast
    next
      case ok: True
      then have c: "checkWriteHeaderCode (httpResponseCode a) = None"
        by (simp add: checkWriteHeaderCode_def)
      show ?thesis
      proof (cases "rw_Write rw bytes")
        case None
        from served_facts(1,2,4,5) [OF d Inr c None] d Inr ok None show ?thesis by blast
      next
        case (Some err)
        from write_fails_facts(1,2,4,5) [OF d Inr c Some] d Inr ok Some show ?thesis by blast
      qed
    qed
  qed
qed

theorem C8_ServeHTTP_outcomes_witness:
  "responseWrites (fst (ServeHTTP example_env example_page rw_broken
       (example_request ''203.0.113.9:4000'' ''/'')))
     = [HeaderAdd ''Content-Type'' ''text/html; charset=utf-8'', WriteHeader 503,
        RwWrite [0x3C, 0x68, 0x31, 0x3E]] \<and>
   forwardCalls (fst (ServeHTTP example_env example_page rw_broken
       (example_request ''203.0.113.9:4000'' ''/'')))
     = [NextServeHTTP (Handler ''backend'') (example_request ''203.0.113.9:4000'' ''/'')] \<and>
   snd (ServeHTTP example_env example_page rw_broken
       (example_request ''203.0.113.9:4000'' ''/'')) = None \<and>
   forwardCalls (fst (ServeHTTP example_env (example_page \<lparr> httpResponseCode := 0 \<rparr>) rw_ok
       (example_request ''203.0.113.9:4000'' ''/''))) = [] \<and>
   snd (ServeHTTP example_env (example_page \<lparr> httpResponseCode := 0 \<rparr>) rw_ok
       (example_request ''203.0.113.9:4000'' ''/'')) = Some (InvalidWriteHeaderCode 0)"
proof -
  let ?out = "example_request ''203.0.113.9:4000'' ''/''"
  let ?T = "fst (ServeHTTP example_env example_page rw_broken ?out)"
  let ?z = "example_page \<lparr> httpResponseCode := 0 \<rparr>"
  let ?Z = "fst (ServeHTTP example_env ?z rw_ok ?out)"
  have w: "responseWrites ?T \<noteq> []" and f: "forwardCalls ?T \<noteq> []"
    by (simp_all add: example_write_failure_trace responseWrites_def forwardCalls_def)
  have r: "os_ReadFile example_env (filename example_page) = Inr [0x3C, 0x68, 0x31, 0x3E]"
    by (simp add: example_page_def example_io)
  from C8_ServeHTTP_outcomes [where env = example_env and a = example_page and rw = rw_broken
      and req = ?out] w f r
  have 1: "responseWrites ?T
          = [HeaderAdd ''Content-Type'' (HttpContentType example_page),
             WriteHeader (httpResponseCode example_page), RwWrite [0x3C, 0x68, 0x31, 0x3E]] \<and>
        forwardCalls ?T = [NextServeHTTP (next_h example_page) ?out] \<and>
        snd (ServeHTTP example_env example_page rw_broken ?out) = None"
    by auto
  have z: "responseWrites ?Z = [HeaderAdd ''Content-Type'' ''text/html; charset=utf-8'']"
    by (simp add: example_bad_code_trace responseWrites_def)
  have c: "httpResponseCode ?z = 0" by simp
  from C8_ServeHTTP_outcomes [where env = example_env and a = ?z and rw = rw_ok and req = ?out] z
  have 2: "forwardCalls ?Z = [] \<and>
           snd (ServeHTTP example_env ?z rw_ok ?out) = Some (InvalidWriteHeaderCode (httpResponseCode ?z))"
    by auto
  from 1 2 show ?thesis by (simp add: example_page_def)
qed

text \<open>
  C9 as stated does not hold in its example: for the peer address \<open>[::1]:8080\<close> the
  last colon is the one before the port, so the resolved address is \<open>[::1]\<close>, with
  both brackets, not \<open>[::1\<close>.
\<close>

theorem C9_bracketed_peer_counterexample:
  "requestGetRemoteAddress (example_request ''[::1]:8080'' ''/'') = Inr ''[::1]'' \<and>
   requestGetRemoteAddress (example_request ''[::1]:8080'' ''/'') \<noteq> Inr ''[::1''"
  by (simp add: example_resolved)

text \<open>
  C9, amended. A text in brackets, \<open>[host]\<close>, never parses as an IP: \<open>net.ParseIP\<close>
  gives \<open>nil\<close> for it. For a request with both \<open>X-Real-Ip\<close> and \<open>X-Forwarded-For\<close>
  empty and a bracketed peer address with a port, \<open>[host]:port\<close>, the resolved
  address is \<open>[host]\<close>: both brackets stay. So, with \<open>net.ParseIP\<close> as the parser,
  \<open>checkIgnore\<close> returns true for every allow-list (its entries parsing, if at all,
  to the networks \<open>net.ParseCIDR\<close> can return): the peer address never exempts such a
  caller.
\<close>

theorem C9_bracketed_peer:
  "ParseIP (''['' @ host @ '']'') = [] \<and>
   (Get (Header r) ''X-Real-Ip'' = [] \<and> Get (Header r) ''X-Forwarded-For'' = [] \<and>
    RemoteAddr r = ''['' @ host @ '']:'' @ port \<and> CHR '':'' \<notin> set port \<longrightarrow>
      requestGetRemoteAddress r = Inr (''['' @ host @ '']'') \<and>
      ((\<forall>entry \<in> set (IpAllowList a). \<forall>n. net_ParseCIDR env entry = Inr n \<longrightarrow> validIPNet n)
         \<longrightarrow> snd (checkIgnore (env \<lparr> net_ParseIP := ParseIP \<rparr>) a r) = Inr True))"
proof (intro conjI impI)
  show nil: "ParseIP (''['' @ host @ '']'') = []"
    using ParseIP_bracket [of "host @ '']''"] by simp
  assume h: "Get (Header r) ''X-Real-Ip'' = [] \<and> Get (Header r) ''X-Forwarded-For'' = [] \<and>
    RemoteAddr r = ''['' @ host @ '']:'' @ port \<and> CHR '':'' \<notin> set port"
  then have "RemoteAddr r = (''['' @ host @ '']'') @ CHR '':'' # port" by simp
  then have "ipAddrFromRemoteAddr (RemoteAddr r) = ''['' @ host @ '']''"
    using h ipAddr_colon [of port "''['' @ host @ '']''"] by simp
  then show res: "requestGetRemoteAddress r = Inr (''['' @ host @ '']'')"
    using h by (simp add: requestGetRemoteAddress_def)
  assume v: "\<forall>entry \<in> set (IpAllowList a). \<forall>n. net_ParseCIDR env entry = Inr n \<longrightarrow> validIPNet n"
  let ?env = "env \<lparr> net_ParseIP := ParseIP \<rparr>"
  have "net_ParseIP ?env (''['' @ host @ '']'') = []" using nil by simp
  moreover have "\<forall>entry \<in> set (IpAllowList a). \<forall>n. net_ParseCIDR ?env entry = Inr n \<longrightarrow> validIPNet n"
    using v by simp
  ultimately show "snd (checkIgnore ?env a r) = Inr True"
    using res by (rule checkIgnore_unparsable [rotated])
qed

theorem C9_bracketed_peer_witness:
  "ParseIP ''[::1]'' = [] \<and>
   requestGetRemoteAddress (example_request ''[::1]:8080'' ''/'') = Inr ''[::1]'' \<and>
   snd (checkIgnore (example_env \<lparr> net_ParseIP := ParseIP \<rparr>) example_page
          (example_request ''[::1]:8080'' ''/'')) = Inr True"
proof -
  let ?r = "example_request ''[::1]:8080'' ''/''"
  note c = C9_bracketed_peer [where r = ?r and host = "''::1''" and port = "''8080''"
      and env = example_env and a = example_page]
  have h: "Get (Header ?r) ''X-Real-Ip'' = [] \<and> Get (Header ?r) ''X-Forwarded-For'' = [] \<and>
   RemoteAddr ?r = ''['' @ ''::1'' @ '']:'' @ ''8080'' \<and> CHR '':'' \<notin> set ''8080''"
    by (simp add: example_request_def Get_def)
  have p: "\<forall>entry \<in> set (IpAllowList example_page). \<forall>n.
          net_ParseCIDR example_env entry = Inr n \<longrightarrow> validIPNet n"
    by (simp add: example_env_def example_page_def validIPNet_def)
  from c h p
  have "ParseIP (''['' @ ''::1'' @ '']'') = [] \<and>
        requestGetRemoteAddress ?r = Inr (''['' @ ''::1'' @ '']'') \<and>
        snd (checkIgnore (example_env \<lparr> net_ParseIP := ParseIP \<rparr>) example_page ?r) = Inr True"
    by blast
  then show ?thesis by simp
qed

text \<open>
  C10. \<open>New\<close> does not look into the allow-list or the deny-uri list: with a non-empty
  \<open>Filename\<close> it succeeds and hands both lists on unchanged, whatever they hold. A
  malformed entry shows only when a request is evaluated: an unparsable allow-list entry
  is logged and skipped, a pattern that does not compile is skipped, and in both loops
  the result is the one the list without that entry gives. Even when every entry of both
  lists is malformed, construction succeeds; the handler then ignores every caller and
  denies no URI.
\<close>

theorem C10_New_no_validation:
  "(Filename config \<noteq> [] \<longrightarrow>
      (\<exists>h. New ctx nxt config nm = Inr h \<and>
           IpAllowList h = Config.IpAllowList config \<and> DenyUri h = Config.DenyUri config)) \<and>
   (net_ParseCIDR env e = Inl err \<longrightarrow>
      checkIgnore_range env addr (e # post)
        = (LogPrintf (''Could not parse allowedIP '' @ [CHR 0x27] @ e @ [CHR 0x27] @ '': '' @ err)
             # fst (checkIgnore_range env addr post),
           snd (checkIgnore_range env addr post)) \<and>
      snd (checkIgnore_range env addr (pre @ e # post)) = snd (checkIgnore_range env addr (pre @ post))) \<and>
   (regexp_Compile env p = Inl err' \<longrightarrow>
      checkDenyUri_range env url (p # post')
        = (LogPrintf (''URL: '' @ url @ '' | Pattern: '' @ p) # fst (checkDenyUri_range env url post'),
           snd (checkDenyUri_range env url post')) \<and>
      snd (checkDenyUri_range env url (pre' @ p # post')) = snd (checkDenyUri_range env url (pre' @ post'))) \<and>
   (Filename config \<noteq> [] \<and>
    (\<forall>x \<in> set (Config.IpAllowList config). \<exists>er. net_ParseCIDR env x = Inl er) \<and>
    (\<forall>x \<in> set (Config.DenyUri config). \<exists>er. regexp_Compile env x = Inl er) \<longrightarrow>
      (\<exists>h. New ctx nxt config nm = Inr h \<and>
           snd (checkIgnore env h req) = Inr True \<and> snd (checkDenyUri env h req) = False))"
proof (intro conjI impI)
  assume "Filename config \<noteq> []"
  then show "\<exists>h. New ctx nxt config nm = Inr h \<and>
           IpAllowList h = Config.IpAllowList config \<and> DenyUri h = Config.DenyUri config"
    by (simp add: New_def)
next
  assume "net_ParseCIDR env e = Inl err"
  then show "checkIgnore_range env addr (e # post)
        = (LogPrintf (''Could not parse allowedIP '' @ [CHR 0x27] @ e @ [CHR 0x27] @ '': '' @ err)
             # fst (checkIgnore_range env addr post),
           snd (checkIgnore_range env addr post))"
    by (simp add: split_beta)
next
  assume "net_ParseCIDR env e = Inl err"
  then show "snd (checkIgnore_range env addr (pre @ e # post)) = snd (checkIgnore_range env addr (pre @ post))"
    by (rule checkIgnore_range_skip)
next
  assume "regexp_Compile env p = Inl err'"
  then show "checkDenyUri_range env url (p # post')
        = (LogPrintf (''URL: '' @ url @ '' | Pattern: '' @ p) # fst (checkDenyUri_range env url post'),
           snd (checkDenyUri_range env url post'))"
    by (simp add: split_beta Let_def)
next
  assume "regexp_Compile env p = Inl err'"
  then show "snd (checkDenyUri_range env url (pre' @ p # post')) = snd (checkDenyUri_range env url (pre' @ post'))"
    by (rule checkDenyUri_range_skip)
next
  assume h: "Filename config \<noteq> [] \<and>
    (\<forall>x \<in> set (Config.IpAllowList config). \<exists>er. net_ParseCIDR env x = Inl er) \<and>
    (\<forall>x \<in> set (Config.DenyUri config). \<exists>er. regexp_Compile env x = Inl er)"
  obtain addr' where addr': "requestGetRemoteAddress req = Inr addr'"
    using requestGetRemoteAddress_total by blast
  from h obtain hd where hd: "New ctx nxt config nm = Inr hd"
    "IpAllowList hd = Config.IpAllowList config" "DenyUri hd = Config.DenyUri config"
    by (auto simp: New_def)
  from h hd have na: "\<forall>x \<in> set (IpAllowList hd). \<not> allowedBy env addr' x"
    by (auto simp: allowedBy_def)
  from h hd have nd: "\<forall>x \<in> set (DenyUri hd). \<not> deniedBy env (URL_String req) x"
    by (auto simp: deniedBy_def)
  have i: "snd (checkIgnore env hd req) = Inr True"
  proof (cases "IpAllowList hd = []")
    case True
    then show ?thesis using addr' by (simp add: checkIgnore_def)
  next
    case False
    then show ?thesis using addr' checkIgnore_range_none [OF na] by (simp add: checkIgnore_def)
  qed
  have d: "snd (checkDenyUri env hd req) = False"
  proof (cases "DenyUri hd = []")
    case True
    then show ?thesis by (simp add: checkDenyUri_def)
  next
    case False
    then show ?thesis using checkDenyUri_range_none [OF nd] by (simp add: checkDenyUri_def Let_def)
  qed
  from hd(1) i d show "\<exists>h. New ctx nxt config nm = Inr h \<and>
           snd (checkIgnore env h req) = Inr True \<and> snd (checkDenyUri env h req) = False"
    by blast
qed

theorem C10_New_no_validation_witness:
  "(\<exists>h. New () (Handler ''backend'') broken_config ''maintenance'' = Inr h \<and>
        IpAllowList h = [''not-a-range'', ''10.0.0.0/33''] \<and>
        DenyUri h = [''(unclosed'', ''[z-a]''] \<and>
        snd (checkIgnore example_env h (example_request ''10.0.0.5:4000'' ''/api/widgets'')) = Inr True \<and>
        snd (checkDenyUri example_env h (example_request ''10.0.0.5:4000'' ''/api/widgets'')) = False) \<and>
   checkIgnore_range example_env ''10.0.0.5'' [''not-a-range'', ''10.0.0.0/8'']
     = ([LogPrintf (''Could not parse allowedIP '' @ [CHR 0x27] @ ''not-a-range'' @ [CHR 0x27]
                      @ '': invalid CIDR address: not-a-range'')], False) \<and>
   checkDenyUri_range example_env ''/api/widgets'' [''(unclosed'', ''^/api/'']
     = ([LogPrintf ''URL: /api/widgets | Pattern: (unclosed'',
         LogPrintf ''URL: /api/widgets | Pattern: ^/api/''], True)"
proof (intro conjI)
  let ?req = "example_request ''10.0.0.5:4000'' ''/api/widgets''"
  note c = C10_New_no_validation [where ctx = "()" and nxt = "Handler ''backend''"
      and config = broken_config and nm = "''maintenance''" and env = example_env and req = ?req
      and e = "''not-a-range''" and err = "''invalid CIDR address: not-a-range''"
      and addr = "''10.0.0.5''" and pre = "[]" and post = "[''10.0.0.0/8'']"
      and p = "''(unclosed''" and err' = "''error parsing regexp: (unclosed''"
      and url = "''/api/widgets''" and pre' = "[]" and post' = "[''^/api/'']"]
  have f: "Filename broken_config \<noteq> []" by (simp add: broken_config_def)
  have m: "Filename broken_config \<noteq> [] \<and>
    (\<forall>x \<in> set (Config.IpAllowList broken_config). \<exists>er. net_ParseCIDR example_env x = Inl er) \<and>
    (\<forall>x \<in> set (Config.DenyUri broken_config). \<exists>er. regexp_Compile example_env x = Inl er)"
    by (simp add: broken_config_def example_env_def)
  from c f obtain h1 where h1: "New () (Handler ''backend'') broken_config ''maintenance'' = Inr h1"
    "IpAllowList h1 = Config.IpAllowList broken_config" "DenyUri h1 = Config.DenyUri broken_config"
    by blast
  from c m obtain h2 where h2: "New () (Handler ''backend'') broken_config ''maintenance'' = Inr h2"
    "snd (checkIgnore example_env h2 ?req) = Inr True" "snd (checkDenyUri example_env h2 ?req) = False"
    by blast
  from h1(1) h2(1) have "h1 = h2" by simp
  with h1 h2 show "\<exists>h. New () (Handler ''backend'') broken_config ''maintenance'' = Inr h \<and>
        IpAllowList h = [''not-a-range'', ''10.0.0.0/33''] \<and>
        DenyUri h = [''(unclosed'', ''[z-a]''] \<and>
        snd (checkIgnore example_env h ?req) = Inr True \<and>
        snd (checkDenyUri example_env h ?req) = False"
    by (auto simp: broken_config_def)
  have "net_ParseCIDR example_env ''not-a-range'' = Inl ''invalid CIDR address: not-a-range''"
    by (simp add: example_env_def)
  with c have "checkIgnore_range example_env ''10.0.0.5'' (''not-a-range'' # [''10.0.0.0/8''])
        = (LogPrintf (''Could not parse allowedIP '' @ [CHR 0x27] @ ''not-a-range'' @ [CHR 0x27]
                        @ '': '' @ ''invalid CIDR address: not-a-range'')
             # fst (checkIgnore_range example_env ''10.0.0.5'' [''10.0.0.0/8'']),
           snd (checkIgnore_range example_env ''10.0.0.5'' [''10.0.0.0/8'']))"
    by blast
  moreover have "checkIgnore_range example_env ''10.0.0.5'' [''10.0.0.0/8''] = ([], False)"
    using checkIgnore_range_first [of "[]" example_env "''10.0.0.5''" "''10.0.0.0/8''" "[]"]
      example_allowedBy(1) by (simp add: cidrErrors_def)
  ultimately show "checkIgnore_range example_env ''10.0.0.5'' [''not-a-range'', ''10.0.0.0/8'']
     = ([LogPrintf (''Could not parse allowedIP '' @ [CHR 0x27] @ ''not-a-range'' @ [CHR 0x27]
                      @ '': invalid CIDR address: not-a-range'')], False)"
    by simp
  have "regexp_Compile example_env ''(unclosed'' = Inl ''error parsing regexp: (unclosed''"
    by (simp add: example_env_def)
  with c have "checkDenyUri_range example_env ''/api/widgets'' (''(unclosed'' # [''^/api/''])
        = (LogPrintf (''URL: '' @ ''/api/widgets'' @ '' | Pattern: '' @ ''(unclosed'')
             # fst (checkDenyUri_range example_env ''/api/widgets'' [''^/api/'']),
           snd (checkDenyUri_range example_env ''/api/widgets'' [''^/api/'']))"
    by blast
  moreover have "checkDenyUri_range example_env ''/api/widgets'' [''^/api/'']
      = ([LogPrintf ''URL: /api/widgets | Pattern: ^/api/''], True)"
    using checkDenyUri_range_first [of "[]" example_env "''/api/widgets''" "''^/api/''" "[]"]
      example_deniedBy(1) by (simp add: patternLines_def)
  ultimately show "checkDenyUri_range example_env ''/api/widgets'' [''(unclosed'', ''^/api/'']
     = ([LogPrintf ''URL: /api/widgets | Pattern: (unclosed'',
         LogPrintf ''URL: /api/widgets | Pattern: ^/api/''], True)"
    by simp
qed

end
